theory Spec2Isabelle
  imports Main
begin

section \<open>Data model of \<^verbatim>\<open>v2/pkg/commands/build/build.go\<close>\<close>

text \<open>
  The build orchestrator mutates one \<^verbatim>\<open>*Options\<close> object, calls external collaborators
  (the builder, the shell, the bindings generator, the packagers, the file system) and
  returns a path and an error. The model threads a state holding the options object, the
  set of paths that exist on disk and the ordered trace of every external call; the
  collaborators whose code is not part of \<^verbatim>\<open>build.go\<close> are parameters, collected in one
  record.
\<close>

datatype Mode = Dev | Production | Debug

text \<open>A Go \<^verbatim>\<open>error\<close> value, identified by the text its \<^verbatim>\<open>Error()\<close> method returns.\<close>

datatype error = Error string

fun Error_text :: "error \<Rightarrow> string" where
  "Error_text (Error m) = m"

text \<open>
  \<^verbatim>\<open>project.Project\<close>: the fields that \<^verbatim>\<open>build.go\<close> reads or writes. The hook tables are
  Go maps from hook identifier to command line.
\<close>

record Project =
  Name :: string
  Path :: string
  OutputType_Project :: string
  OutputFilename :: string
  PreBuildHooks :: "string \<rightharpoonup> string"
  PostBuildHooks :: "string \<rightharpoonup> string"
  RunNonNativeBuildHooks :: bool

text \<open>
  \<^verbatim>\<open>Options\<close>, field by field. \<^verbatim>\<open>ProjectData\<close> is a pointer and may be nil. The
  \<^verbatim>\<open>Logger\<close> field is the sink of the log lines, which the model records in the trace.
\<close>

record Options =
  LDFlags :: string
  UserTags :: "string list"
  OutputType :: string
  Mode :: Mode
  ProjectData :: "Project option"
  Pack :: bool
  Platform :: string
  Arch :: string
  Compiler :: string
  SkipModTidy :: bool
  IgnoreFrontend :: bool
  IgnoreApplication :: bool
  OutputFile :: string
  BinDirectory :: string
  CleanBinDirectory :: bool
  CompiledBinary :: string
  KeepAssets :: bool
  Verbosity :: int
  Compress :: bool
  CompressFlags :: string
  WebView2Strategy :: string
  RunDelve :: bool
  WailsJSDir :: string
  ForceBuild :: bool
  BundleName :: string
  TrimPath :: bool
  RaceDetector :: bool
  WindowsConsole :: bool
  Obfuscated :: bool
  GarbleArgs :: string
  SkipBindings :: bool

text \<open>
  Every effect outside the options object, in the order the code performs it: a log line
  (format and arguments), a line of the builtin \<^verbatim>\<open>println\<close>, and the calls to the
  collaborators with their arguments.
\<close>

datatype Event =
    EvLog string "string list"
  | EvPrintln string
  | EvFatal error
  | EvNewDesktopBuilder
  | EvSetProjectData
  | EvCleanUp
  | EvRunCommand string string "string list"
  | EvGetEmbedDetails string
  | EvMkdirAll string
  | EvCreate string
  | EvGenerateBindings "string list" bool
  | EvBuildFrontend
  | EvCompileProject Options
  | EvDeleteFile string
  | EvRemove string
  | EvPackageApplicationForWindows
  | EvPackageProject string

record State =
  options :: Options
  files :: "string set"
  trace :: "Event list"

text \<open>
  How a call ends: it returns its Go result, it panics (a nil dereference or an index out
  of range; deferred calls still run), or the process exits through \<^verbatim>\<open>log.Fatal\<close>
  (deferred calls do not run).
\<close>

datatype 'a outcome = Returns 'a | Panics | Exits

text \<open>
  The collaborators of \<^verbatim>\<open>build.go\<close>. A subprocess or tool may change the files on disk in
  any way, so it takes the current set of paths and returns the new one with its result.
  \<^item> \<^verbatim>\<open>builder_CompileProject\<close> returns the error, the path the builder records as compiled
    binary, and the new files.
  \<^item> the two packagers are handed the options object and may assign any of its fields: they
    return the error, the options as they leave them, and the new files.
  \<^item> \<^verbatim>\<open>os_MkdirAll_effect\<close> returns the error of \<^verbatim>\<open>os.MkdirAll\<close> and the paths that exist after
    it (the directory and the parents it had to create).
  \<^item> the \<^verbatim>\<open>_fails\<close> fields decide whether a file-system primitive fails on a path.
\<close>

record Env =
  GOOS :: string
  os_Getwd :: "string \<times> error option"
  filepath_Join :: "string \<Rightarrow> string \<Rightarrow> string"
  colour_Green :: "string \<Rightarrow> string"
  GetWailsJSDir :: "Project \<Rightarrow> string"
  GetBuildDir :: "Project \<Rightarrow> string"
  builder_OutputFilename :: "Options \<Rightarrow> string"
  builder_BuildFrontend :: "string set \<Rightarrow> error option \<times> string set"
  builder_CompileProject :: "Options \<Rightarrow> string set \<Rightarrow> error option \<times> string \<times> string set"
  builder_CleanUp :: "string set \<Rightarrow> string set"
  staticanalysis_GetEmbedDetails :: "string \<Rightarrow> string set \<Rightarrow> string list \<times> error option"
  os_MkdirAll_effect :: "string \<Rightarrow> string set \<Rightarrow> error option \<times> string set"
  os_Create_fails :: "string \<Rightarrow> string set \<Rightarrow> error option"
  os_Remove_fails :: "string \<Rightarrow> string set \<Rightarrow> error option"
  fs_DeleteFile_fails :: "string \<Rightarrow> string set \<Rightarrow> error option"
  bindings_GenerateBindings ::
    "string list \<Rightarrow> bool \<Rightarrow> string set \<Rightarrow> (string \<times> error option) \<times> string set"
  shell_RunCommand ::
    "string \<Rightarrow> string \<Rightarrow> string list \<Rightarrow> string set \<Rightarrow> (string \<times> string \<times> error option) \<times> string set"
  packageApplicationForWindows ::
    "Options \<Rightarrow> string set \<Rightarrow> error option \<times> Options \<times> string set"
  packageProject ::
    "Options \<Rightarrow> string \<Rightarrow> string set \<Rightarrow> error option \<times> Options \<times> string set"

section \<open>Library functions of Go used by the code\<close>

text \<open>
  \<^verbatim>\<open>strings.Split(s, sep)\<close> for a separator of one character: the pieces between the
  occurrences of the separator, empty pieces included; never the empty list.
\<close>

fun strings_Split :: "string \<Rightarrow> char \<Rightarrow> string list" where
  "strings_Split [] sep = [[]]"
| "strings_Split (c # cs) sep =
     (if c = sep then [] # strings_Split cs sep
      else (case strings_Split cs sep of
              [] \<Rightarrow> [[c]]
            | piece # pieces \<Rightarrow> (c # piece) # pieces))"

fun strings_Join :: "string list \<Rightarrow> string \<Rightarrow> string" where
  "strings_Join [] sep = []"
| "strings_Join [x] sep = x"
| "strings_Join (x # y # ys) sep = x @ sep @ strings_Join (y # ys) sep"

text \<open>Indexing a Go \<^verbatim>\<open>map[string]string\<close>: a missing key gives the empty string.\<close>

definition map_index :: "(string \<rightharpoonup> string) \<Rightarrow> string \<Rightarrow> string" where
  "map_index m k = (case m k of None \<Rightarrow> [] | Some v \<Rightarrow> v)"

text \<open>
  Modelled from the spec: the constant \<^verbatim>\<open>VERBOSE\<close> is declared in another file of the
  package; the verbosity levels are 0 (silent), 1 (default) and 2 (verbose).
\<close>

definition VERBOSE :: int where
  "VERBOSE = 2"

text \<open>The format strings of the log lines, as the code passes them to the logger.\<close>

definition fmt_ExecutingHook :: string where
  "fmt_ExecutingHook = ''  - Executing %s build hook '%s': ''"

definition fmt_NonNativeHook :: string where
  "fmt_NonNativeHook = ''  - Non native build hook '%s': Skipping.''"

definition fmt_Args :: string where
  "fmt_Args = ''%s''"

definition fmt_Done :: string where
  "fmt_Done = ''Done.''"

definition fmt_GeneratingObfuscatedBindings :: string where
  "fmt_GeneratingObfuscatedBindings = ''  - Generating obfuscated bindings: ''"

definition fmt_GeneratingBindings :: string where
  "fmt_GeneratingBindings = ''  - Generating bindings: ''"

definition fmt_GeneratingBundleAssets :: string where
  "fmt_GeneratingBundleAssets = ''  - Generating bundle assets: ''"

definition fmt_CompilingApplication :: string where
  "fmt_CompilingApplication = ''  - Compiling application: ''"

definition fmt_BuildingAMD64 :: string where
  "fmt_BuildingAMD64 = CHR 0x0A # ''Building AMD64 Target: %s''"

definition fmt_BuildingARM64 :: string where
  "fmt_BuildingARM64 = ''Building ARM64 Target: %s''"

definition fmt_RunningLipo :: string where
  "fmt_RunningLipo = ''  Running lipo: lipo -create -output %s %s %s''"

definition fmt_PackagingApplication :: string where
  "fmt_PackagingApplication = ''  - Packaging application: ''"

definition emit :: "Event \<Rightarrow> State \<Rightarrow> State" where
  "emit e s = s\<lparr>trace := trace s @ [e]\<rparr>"

text \<open>
  The statement \<^verbatim>\<open>if options.Verbosity == VERBOSE { outputLogger.Println(format, args...) }\<close>.
\<close>

definition printlnVerbose :: "string \<Rightarrow> string list \<Rightarrow> State \<Rightarrow> State" where
  "printlnVerbose fmt args s =
     (if Verbosity (options s) = VERBOSE then emit (EvLog fmt args) s else s)"

section \<open>Build hooks\<close>

text \<open>
  Lines 365 to 388 of \<^verbatim>\<open>executeBuildHook\<close>: substitute the arguments and run the command in
  the bin directory.
\<close>

definition substituteArgs :: "(string \<rightharpoonup> string) \<Rightarrow> string list \<Rightarrow> string list" where
  "substituteArgs argReplacements args =
     map (\<lambda>arg. let newArg = map_index argReplacements arg
                in if newArg = [] then arg else newArg) args"

definition runBuildHook ::
  "Env \<Rightarrow> string \<Rightarrow> (string \<rightharpoonup> string) \<Rightarrow> string \<Rightarrow> string \<Rightarrow> State
     \<Rightarrow> error option outcome \<times> State" where
  "runBuildHook env hookIdentifier argReplacements buildHook hookName s =
     (let s1 = emit (EvLog fmt_ExecutingHook [hookName, hookIdentifier]) s;
          args = substituteArgs argReplacements (strings_Split buildHook CHR '' '');
          s2 = printlnVerbose fmt_Args [strings_Join args '' ''] s1
      in case args of
           [] \<Rightarrow> (Panics, s2)
         | cmd # rest \<Rightarrow>
             (case shell_RunCommand env (BinDirectory (options s2)) cmd rest (files s2) of
                ((stdout, stderr, err), files') \<Rightarrow>
                  let s3 = (emit (EvRunCommand (BinDirectory (options s2)) cmd rest) s2)
                             \<lparr>files := files'\<rparr>;
                      s4 = (if Verbosity (options s3) = VERBOSE
                            then emit (EvPrintln stdout) s3 else s3)
                  in (case err of
                        Some e \<Rightarrow> (Returns (Some (Error (Error_text e @ '' - '' @ stderr))), s4)
                      | None \<Rightarrow> (Returns None, emit (EvLog fmt_Done []) s4))))"

definition executeBuildHook ::
  "Env \<Rightarrow> string \<Rightarrow> (string \<rightharpoonup> string) \<Rightarrow> string \<Rightarrow> string \<Rightarrow> State
     \<Rightarrow> error option outcome \<times> State" where
  "executeBuildHook env hookIdentifier argReplacements buildHook hookName s =
     (case ProjectData (options s) of
        None \<Rightarrow> (Panics, s)
      | Some p \<Rightarrow>
          if \<not> RunNonNativeBuildHooks p then
            (if hookIdentifier = [] then
               runBuildHook env hookIdentifier argReplacements buildHook hookName s
             else
               (case strings_Split hookIdentifier CHR ''/'' of
                  [] \<Rightarrow> (Panics, s)
                | platformOfHook # _ \<Rightarrow>
                    if platformOfHook = ''*'' then
                      runBuildHook env hookIdentifier argReplacements buildHook hookName s
                    else if platformOfHook = GOOS env then
                      runBuildHook env hookIdentifier argReplacements buildHook hookName s
                    else
                      (Returns None,
                       emit (EvLog fmt_NonNativeHook [hookIdentifier]) s)))
          else runBuildHook env hookIdentifier argReplacements buildHook hookName s)"

definition execPreBuildHook ::
  "Env \<Rightarrow> string \<Rightarrow> (string \<rightharpoonup> string) \<Rightarrow> State \<Rightarrow> error option outcome \<times> State" where
  "execPreBuildHook env hookIdentifier argReplacements s =
     (case ProjectData (options s) of
        None \<Rightarrow> (Panics, s)
      | Some p \<Rightarrow>
          let preBuildHook = map_index (PreBuildHooks p) hookIdentifier
          in if preBuildHook = [] then (Returns None, s)
             else executeBuildHook env hookIdentifier argReplacements preBuildHook ''pre'' s)"

definition execPostBuildHook ::
  "Env \<Rightarrow> string \<Rightarrow> (string \<rightharpoonup> string) \<Rightarrow> State \<Rightarrow> error option outcome \<times> State" where
  "execPostBuildHook env hookIdentifier argReplacements s =
     (case ProjectData (options s) of
        None \<Rightarrow> (Panics, s)
      | Some p \<Rightarrow>
          let postBuildHook = map_index (PostBuildHooks p) hookIdentifier
          in if postBuildHook = [] then (Returns None, s)
             else executeBuildHook env hookIdentifier argReplacements postBuildHook ''post'' s)"

text \<open>
  The statement \<^verbatim>\<open>if err != nil { return "", err }\<close> after a call that returns an error:
  the rest of the function runs only when the call returned nil; a panic or an exit of
  the process ends the caller too.
\<close>

definition orReturn ::
  "error option outcome \<times> State \<Rightarrow> (State \<Rightarrow> (string \<times> error option) outcome \<times> State)
     \<Rightarrow> (string \<times> error option) outcome \<times> State" where
  "orReturn r rest =
     (case r of
        (Returns None, s) \<Rightarrow> rest s
      | (Returns (Some err), s) \<Rightarrow> (Returns ([], Some err), s)
      | (Panics, s) \<Rightarrow> (Panics, s)
      | (Exits, s) \<Rightarrow> (Exits, s))"

text \<open>The same statement in a function that returns only an error.\<close>

definition orReturnErr ::
  "error option outcome \<times> State \<Rightarrow> (State \<Rightarrow> error option outcome \<times> State)
     \<Rightarrow> error option outcome \<times> State" where
  "orReturnErr r rest =
     (case r of
        (Returns None, s) \<Rightarrow> rest s
      | other \<Rightarrow> other)"

text \<open>
  The loops of \<^verbatim>\<open>Build\<close> over the hook identifiers (lines 115 to 119 and 150 to 154): each
  identifier is passed to \<^verbatim>\<open>exec\<close>, and the first error ends the loop.
\<close>

fun forEachHook ::
  "(string \<Rightarrow> State \<Rightarrow> error option outcome \<times> State) \<Rightarrow> string list \<Rightarrow> State
     \<Rightarrow> error option outcome \<times> State" where
  "forEachHook exec [] s = (Returns None, s)"
| "forEachHook exec (hook # hooks) s = orReturnErr (exec hook s) (forEachHook exec hooks)"

definition hookIdentifiers :: "Options \<Rightarrow> string list" where
  "hookIdentifiers opts =
     [Platform opts @ ''/'' @ Arch opts, Platform opts @ ''/*'', ''*/*'']"

section \<open>Embed directories and bindings\<close>

text \<open>
  Modelled from the spec: \<^verbatim>\<open>os.Stat\<close>, \<^verbatim>\<open>os.Create\<close>, \<^verbatim>\<open>os.Remove\<close> and \<^verbatim>\<open>fs.DeleteFile\<close> on
  the set of existing paths. A path does not exist when it is not in the set; a
  successful creation adds the path; a successful removal or deletion takes it away; a
  failed primitive changes nothing. \<^verbatim>\<open>os.MkdirAll\<close> creates the directory with its missing
  parents, and may have created some of them when it fails: the paths that exist after
  it are those its parameter returns.
\<close>

definition os_MkdirAll :: "Env \<Rightarrow> string \<Rightarrow> State \<Rightarrow> error option \<times> State" where
  "os_MkdirAll env path s =
     (case os_MkdirAll_effect env path (files s) of
        (err, files') \<Rightarrow> (err, (emit (EvMkdirAll path) s)\<lparr>files := files'\<rparr>))"

definition os_Create :: "Env \<Rightarrow> string \<Rightarrow> State \<Rightarrow> error option \<times> State" where
  "os_Create env path s =
     (case os_Create_fails env path (files s) of
        Some err \<Rightarrow> (Some err, emit (EvCreate path) s)
      | None \<Rightarrow> (None, (emit (EvCreate path) s)\<lparr>files := insert path (files s)\<rparr>))"

definition os_Remove :: "Env \<Rightarrow> string \<Rightarrow> State \<Rightarrow> error option \<times> State" where
  "os_Remove env path s =
     (case os_Remove_fails env path (files s) of
        Some err \<Rightarrow> (Some err, emit (EvRemove path) s)
      | None \<Rightarrow> (None, (emit (EvRemove path) s)\<lparr>files := files s - {path}\<rparr>))"

definition fs_DeleteFile :: "Env \<Rightarrow> string \<Rightarrow> State \<Rightarrow> error option \<times> State" where
  "fs_DeleteFile env path s =
     (case fs_DeleteFile_fails env path (files s) of
        Some err \<Rightarrow> (Some err, emit (EvDeleteFile path) s)
      | None \<Rightarrow> (None, (emit (EvDeleteFile path) s)\<lparr>files := files s - {path}\<rparr>))"

text \<open>The loop of \<^verbatim>\<open>CreateEmbedDirectories\<close> over the full paths of the embed details.\<close>

fun createEmbedDirectory :: "Env \<Rightarrow> string list \<Rightarrow> State \<Rightarrow> error option outcome \<times> State" where
  "createEmbedDirectory env [] s = (Returns None, s)"
| "createEmbedDirectory env (fullPath # embedDetails) s =
     (if fullPath \<notin> files s then
        (case os_MkdirAll env fullPath s of
           (Some err, s1) \<Rightarrow> (Returns (Some err), s1)
         | (None, s1) \<Rightarrow>
             (case os_Create env (filepath_Join env fullPath ''gitkeep'') s1 of
                (Some err, s2) \<Rightarrow> (Returns (Some err), s2)
              | (None, s2) \<Rightarrow> createEmbedDirectory env embedDetails s2))
      else createEmbedDirectory env embedDetails s)"

definition CreateEmbedDirectories ::
  "Env \<Rightarrow> string \<Rightarrow> State \<Rightarrow> error option outcome \<times> State" where
  "CreateEmbedDirectories env cwd s =
     (let path = (case ProjectData (options s) of None \<Rightarrow> cwd | Some p \<Rightarrow> Path p)
      in case staticanalysis_GetEmbedDetails env path (files s) of
           (embedDetails, Some err) \<Rightarrow> (Returns (Some err), emit (EvGetEmbedDetails path) s)
         | (embedDetails, None) \<Rightarrow>
             createEmbedDirectory env embedDetails (emit (EvGetEmbedDetails path) s))"

definition GenerateBindings :: "Env \<Rightarrow> State \<Rightarrow> error option outcome \<times> State" where
  "GenerateBindings env s =
     (let obfuscated = Obfuscated (options s);
          s1 = (if obfuscated then
                  (emit (EvLog fmt_GeneratingObfuscatedBindings []) s)
                    \<lparr>options := (options s)\<lparr>UserTags := UserTags (options s) @ [''obfuscated'']\<rparr>\<rparr>
                else emit (EvLog fmt_GeneratingBindings []) s);
          Tags = UserTags (options s1);
          GoModTidy = (\<not> SkipModTidy (options s1))
      in case bindings_GenerateBindings env Tags GoModTidy (files s1) of
           ((output, err), files') \<Rightarrow>
             let s2 = (emit (EvGenerateBindings Tags GoModTidy) s1)\<lparr>files := files'\<rparr>
             in (case err of
                   Some e \<Rightarrow> (Returns (Some e), s2)
                 | None \<Rightarrow>
                     let s3 = printlnVerbose output [] s2
                     in (Returns None, emit (EvLog fmt_Done []) s3)))"

section \<open>Compiling the application\<close>

text \<open>
  Modelled from the spec: the methods of the \<^verbatim>\<open>Builder\<close> interface and the two packagers
  are implemented in other files. \<^verbatim>\<open>CompileProject\<close> compiles for the platform and
  architecture of the options it is given and records the resulting path in the
  compiled-binary field; \<^verbatim>\<open>OutputFilename\<close> computes a name from the options;
  \<^verbatim>\<open>BuildFrontend\<close> is given the logger only. The packagers are given the pointer to the
  options and nothing says which fields they leave alone, so the options after a packager
  are those it returns. All of them may change the files.
\<close>

definition CompileProject :: "Env \<Rightarrow> State \<Rightarrow> error option outcome \<times> State" where
  "CompileProject env s =
     (case builder_CompileProject env (options s) (files s) of
        (err, compiledBinary, files') \<Rightarrow>
          (Returns err,
           (emit (EvCompileProject (options s)) s)
             \<lparr>files := files', options := (options s)\<lparr>CompiledBinary := compiledBinary\<rparr>\<rparr>))"

definition BuildFrontend :: "Env \<Rightarrow> State \<Rightarrow> error option outcome \<times> State" where
  "BuildFrontend env s =
     (case builder_BuildFrontend env (files s) of
        (err, files') \<Rightarrow> (Returns err, (emit EvBuildFrontend s)\<lparr>files := files'\<rparr>))"

definition call_packageApplicationForWindows ::
  "Env \<Rightarrow> State \<Rightarrow> error option outcome \<times> State" where
  "call_packageApplicationForWindows env s =
     (case packageApplicationForWindows env (options s) (files s) of
        (err, options', files') \<Rightarrow>
          (Returns err,
           (emit EvPackageApplicationForWindows s)\<lparr>files := files', options := options'\<rparr>))"

definition call_packageProject :: "Env \<Rightarrow> string \<Rightarrow> State \<Rightarrow> error option outcome \<times> State" where
  "call_packageProject env platform s =
     (case packageProject env (options s) platform (files s) of
        (err, options', files') \<Rightarrow>
          (Returns err,
           (emit (EvPackageProject platform) s)\<lparr>files := files', options := options'\<rparr>))"

text \<open>
  Lines 270 to 288 of \<^verbatim>\<open>execBuildApplication\<close>: run \<^verbatim>\<open>lipo\<close> on the two binaries, remove them,
  and record the fused binary.
\<close>

definition fuseBinaries ::
  "Env \<Rightarrow> string \<Rightarrow> string \<Rightarrow> string \<Rightarrow> State \<Rightarrow> error option outcome \<times> State" where
  "fuseBinaries env outputFile amd64Filename arm64Filename s =
     (let s1 = printlnVerbose fmt_RunningLipo [outputFile, amd64Filename, arm64Filename] s;
          lipoArgs = [''-create'', ''-output'', outputFile, amd64Filename, arm64Filename]
      in (case shell_RunCommand env (BinDirectory (options s1)) ''lipo'' lipoArgs (files s1) of
            ((stdout, stderr, err), files') \<Rightarrow>
              let s2 = (emit (EvRunCommand (BinDirectory (options s1)) ''lipo'' lipoArgs) s1)
                         \<lparr>files := files'\<rparr>
              in (case err of
                    Some e \<Rightarrow> (Returns (Some (Error (Error_text e @ '' - '' @ stderr))), s2)
                  | None \<Rightarrow>
                      (case fs_DeleteFile env
                              (filepath_Join env (BinDirectory (options s2)) amd64Filename) s2 of
                         (Some e, s3) \<Rightarrow> (Returns (Some e), s3)
                       | (None, s3) \<Rightarrow>
                           (case fs_DeleteFile env
                                   (filepath_Join env (BinDirectory (options s3)) arm64Filename) s3 of
                              (Some e, s4) \<Rightarrow> (Returns (Some e), s4)
                            | (None, s4) \<Rightarrow>
                                (case ProjectData (options s4) of
                                   None \<Rightarrow> (Panics, s4)
                                 | Some p \<Rightarrow>
                                     (Returns None,
                                      s4\<lparr>options := (options s4)
                                        \<lparr>ProjectData := Some (p\<lparr>OutputFilename := outputFile\<rparr>),
                                         CompiledBinary :=
                                           filepath_Join env (BinDirectory (options s4)) outputFile\<rparr>\<rparr>)))))))"

text \<open>
  Lines 243 to 288 of \<^verbatim>\<open>execBuildApplication\<close>: the universal binary for darwin. The result
  is the error of the first failing step, which \<^verbatim>\<open>execBuildApplication\<close> returns with the
  empty path.
\<close>

definition compileUniversal :: "Env \<Rightarrow> State \<Rightarrow> error option outcome \<times> State" where
  "compileUniversal env s =
     (let outputFile = builder_OutputFilename env (options s);
          amd64Filename = outputFile @ ''-amd64'';
          arm64Filename = outputFile @ ''-arm64'';
          s1 = s\<lparr>options := (options s)\<lparr>Arch := ''amd64'', OutputFile := amd64Filename,
                                         CleanBinDirectory := False\<rparr>\<rparr>;
          s2 = printlnVerbose fmt_BuildingAMD64
                 [filepath_Join env (BinDirectory (options s1)) (OutputFile (options s1))] s1
      in orReturnErr (CompileProject env s2) (\<lambda>s3.
         let s4 = s3\<lparr>options := (options s3)\<lparr>Arch := ''arm64'', OutputFile := arm64Filename,
                                           CleanBinDirectory := False\<rparr>\<rparr>;
             s5 = printlnVerbose fmt_BuildingARM64
                    [filepath_Join env (BinDirectory (options s4)) (OutputFile (options s4))] s4
         in orReturnErr (CompileProject env s5)
              (fuseBinaries env outputFile amd64Filename arm64Filename)))"

text \<open>
  Lines 311 to 323: the message about the experimental loader. The local slice \<^verbatim>\<open>tags\<close>
  starts as the user tags; the options object is not assigned.
\<close>

definition expWebView2Loader :: string where
  "expWebView2Loader = ''exp_gowebview2loader''"

definition webView2LoaderMessage :: "Options \<Rightarrow> string" where
  "webView2LoaderMessage opts =
     (let tags = UserTags opts
      in if expWebView2Loader \<in> set tags then
           ''Thanks for testing the new experimental Go native WebView2Loader. Please report your feedback and any bugs you think might be related to using the new loader: https://github.com/wailsapp/wails/issues/2004''
         else
           ''An experimental Go native WebView2Loader is available. We would love to hear your feedback about it and invite you to test it by building with `-tags ''
             @ strings_Join (tags @ [expWebView2Loader]) '','' @ ''`'')"

text \<open>
  Lines 296 to 325 of \<^verbatim>\<open>execBuildApplication\<close>: after a successful compile, package the
  application when asked, print the message for Windows, and return the compiled binary.
\<close>

definition packageAndReturn ::
  "Env \<Rightarrow> State \<Rightarrow> (string \<times> error option) outcome \<times> State" where
  "packageAndReturn env s =
     (let s1 = emit (EvLog fmt_Done []) s
      in orReturn
           (if Pack (options s1) \<and> Platform (options s1) \<noteq> ''windows'' then
              orReturnErr
                (call_packageProject env (GOOS env)
                   (emit (EvLog fmt_PackagingApplication []) s1))
                (\<lambda>s2. (Returns None, emit (EvLog fmt_Done []) s2))
            else (Returns None, s1)) (\<lambda>s3.
         let s4 = (if Platform (options s3) = ''windows''
                   then emit (EvPrintln (colour_Green env
                                (''  - '' @ webView2LoaderMessage (options s3)))) s3
                   else s3)
         in (Returns (CompiledBinary (options s4), None), s4)))"

text \<open>Lines 239 to 325 of \<^verbatim>\<open>execBuildApplication\<close>, after the Windows bundle step.\<close>

definition compileApplication ::
  "Env \<Rightarrow> State \<Rightarrow> (string \<times> error option) outcome \<times> State" where
  "compileApplication env s =
     (let s1 = emit (EvLog fmt_CompilingApplication []) s
      in orReturn
           (if Platform (options s1) = ''darwin'' \<and> Arch (options s1) = ''universal''
            then compileUniversal env s1
            else CompileProject env s1)
           (packageAndReturn env))"

text \<open>
  The deferred function of lines 231 to 236: it runs when \<^verbatim>\<open>execBuildApplication\<close> returns
  or panics, removes the syso file, and ends the process through \<^verbatim>\<open>log.Fatal\<close> when the
  removal fails.
\<close>

definition removeSyso ::
  "Env \<Rightarrow> (string \<times> error option) outcome \<times> State \<Rightarrow> (string \<times> error option) outcome \<times> State" where
  "removeSyso env r =
     (case r of
        (Exits, s) \<Rightarrow> (Exits, s)
      | (out, s) \<Rightarrow>
          (case ProjectData (options s) of
             None \<Rightarrow> (Panics, s)
           | Some p \<Rightarrow>
               (case os_Remove env (filepath_Join env (Path p) (Name p @ ''-res.syso'')) s of
                  (Some err, s1) \<Rightarrow> (Exits, emit (EvFatal err) s1)
                | (None, s1) \<Rightarrow> (out, s1))))"

definition execBuildApplication ::
  "Env \<Rightarrow> State \<Rightarrow> (string \<times> error option) outcome \<times> State" where
  "execBuildApplication env s =
     (if Pack (options s) \<and> Platform (options s) = ''windows'' then
        orReturn
          (call_packageApplicationForWindows env
             (emit (EvLog fmt_GeneratingBundleAssets []) s))
          (\<lambda>s1. removeSyso env (compileApplication env (emit (EvLog fmt_Done []) s1)))
      else compileApplication env s)"

section \<open>The pipeline\<close>

text \<open>
  Lines 141 to 156 of \<^verbatim>\<open>Build\<close>: the compile stage, then the post-build hooks with the
  compiled binary added to the substitution map.
\<close>

definition buildApplicationAndPostHooks ::
  "Env \<Rightarrow> (string \<rightharpoonup> string) \<Rightarrow> State \<Rightarrow> (string \<times> error option) outcome \<times> State" where
  "buildApplicationAndPostHooks env hookArgs s =
     (case (if \<not> IgnoreApplication (options s) then execBuildApplication env s
            else (Returns ([], None), s)) of
        (Returns (compileBinary, Some err), s1) \<Rightarrow> (Returns ([], Some err), s1)
      | (Returns (compileBinary, None), s1) \<Rightarrow>
          orReturn
            (forEachHook
               (\<lambda>hook. execPostBuildHook env hook (hookArgs(''${bin}'' \<mapsto> compileBinary)))
               (hookIdentifiers (options s1)) s1)
            (\<lambda>s2. (Returns (compileBinary, None), s2))
      | (Panics, s1) \<Rightarrow> (Panics, s1)
      | (Exits, s1) \<Rightarrow> (Exits, s1))"

text \<open>Lines 108 to 156 of \<^verbatim>\<open>Build\<close>: what runs between the \<^verbatim>\<open>defer\<close> and the return.\<close>

definition buildPipeline ::
  "Env \<Rightarrow> string \<Rightarrow> State \<Rightarrow> (string \<times> error option) outcome \<times> State" where
  "buildPipeline env cwd s =
     (let s1 = emit EvSetProjectData s;
          hookArgs = [''${platform}'' \<mapsto> Platform (options s1) @ ''/'' @ Arch (options s1)]
      in orReturn
           (forEachHook (\<lambda>hook. execPreBuildHook env hook hookArgs)
              (hookIdentifiers (options s1)) s1) (\<lambda>s2.
         orReturn (CreateEmbedDirectories env cwd s2) (\<lambda>s3.
         orReturn
           (if \<not> SkipBindings (options s3) then GenerateBindings env s3
            else (Returns None, s3)) (\<lambda>s4.
         orReturn
           (if \<not> IgnoreFrontend (options s4) then BuildFrontend env s4
            else (Returns None, s4))
           (buildApplicationAndPostHooks env hookArgs)))))"

text \<open>
  \<^verbatim>\<open>defer builder.CleanUp()\<close>: the call runs when \<^verbatim>\<open>Build\<close> returns or panics, not when the
  process has exited.
\<close>

definition deferCleanUp ::
  "Env \<Rightarrow> (string \<times> error option) outcome \<times> State \<Rightarrow> (string \<times> error option) outcome \<times> State" where
  "deferCleanUp env r =
     (case r of
        (Exits, s) \<Rightarrow> (Exits, s)
      | (out, s) \<Rightarrow> (out, (emit EvCleanUp s)\<lparr>files := builder_CleanUp env (files s)\<rparr>))"

definition Build :: "Env \<Rightarrow> State \<Rightarrow> (string \<times> error option) outcome \<times> State" where
  "Build env s =
     (case os_Getwd env of
        (cwd, Some err) \<Rightarrow> (Returns ([], Some err), s)
      | (cwd, None) \<Rightarrow>
          (case ProjectData (options s) of
             None \<Rightarrow> (Panics, s)
           | Some p \<Rightarrow>
               let s1 = s\<lparr>options := (options s)\<lparr>WailsJSDir := GetWailsJSDir env p\<rparr>\<rparr>;
                   s2 = s1\<lparr>options := (options s1)
                          \<lparr>BinDirectory := filepath_Join env (GetBuildDir env p) ''bin''\<rparr>\<rparr>;
                   s3 = s2\<lparr>options := (options s2)
                          \<lparr>ProjectData := Some (p\<lparr>OutputType_Project := OutputType (options s2)\<rparr>)\<rparr>\<rparr>
               in if OutputType (options s3) = ''desktop'' then
                    deferCleanUp env (buildPipeline env cwd (emit EvNewDesktopBuilder s3))
                  else if OutputType (options s3) = ''dev'' then
                    deferCleanUp env (buildPipeline env cwd (emit EvNewDesktopBuilder s3))
                  else
                    (Returns ([],
                       Some (Error (''cannot build assets for output type ''
                                     @ (case ProjectData (options s3) of
                                          None \<Rightarrow> [] | Some p' \<Rightarrow> OutputType_Project p')))),
                     s3)))"

section \<open>Reading a trace\<close>

text \<open>The subprocesses started through \<^verbatim>\<open>shell.RunCommand\<close>: directory, command, arguments.\<close>

fun commands :: "Event list \<Rightarrow> (string \<times> string \<times> string list) list" where
  "commands [] = []"
| "commands (EvRunCommand dir cmd args # evs) = (dir, cmd, args) # commands evs"
| "commands (_ # evs) = commands evs"

text \<open>The calls to collaborators, that is the trace without the log lines.\<close>

fun is_output :: "Event \<Rightarrow> bool" where
  "is_output (EvLog fmt args) = True"
| "is_output (EvPrintln line) = True"
| "is_output _ = False"

definition calls :: "Event list \<Rightarrow> Event list" where
  "calls evs = filter (\<lambda>e. \<not> is_output e) evs"

text \<open>The life of the builder in a trace: its construction and its \<^verbatim>\<open>CleanUp\<close>.\<close>

fun is_builder_life :: "Event \<Rightarrow> bool" where
  "is_builder_life EvNewDesktopBuilder = True"
| "is_builder_life EvCleanUp = True"
| "is_builder_life _ = False"

definition builderLife :: "Event list \<Rightarrow> Event list" where
  "builderLife evs = filter is_builder_life evs"

text \<open>
  The command line a hook template stands for under a substitution map: the command and
  its arguments as \<^verbatim>\<open>executeBuildHook\<close> passes them to the shell, in the bin directory.
\<close>

definition hookCommandLine ::
  "Options \<Rightarrow> (string \<rightharpoonup> string) \<Rightarrow> string \<Rightarrow> (string \<times> string \<times> string list) list" where
  "hookCommandLine opts argReplacements buildHook =
     (case substituteArgs argReplacements (strings_Split buildHook CHR '' '') of
        [] \<Rightarrow> []
      | cmd # rest \<Rightarrow> [(BinDirectory opts, cmd, rest)])"

text \<open>
  Whether \<^verbatim>\<open>executeBuildHook\<close> lets a hook identifier through its platform filter on a host
  (lines 348 to 363).
\<close>

definition passesPlatformFilter :: "Env \<Rightarrow> Project \<Rightarrow> string \<Rightarrow> bool" where
  "passesPlatformFilter env p hookIdentifier =
     (RunNonNativeBuildHooks p \<or> hookIdentifier = []
      \<or> takeWhile (\<lambda>c. c \<noteq> CHR ''/'') hookIdentifier = ''*''
      \<or> takeWhile (\<lambda>c. c \<noteq> CHR ''/'') hookIdentifier = GOOS env)"

text \<open>
  What one hook identifier adds to the subprocesses of a phase whose hook table is
  \<^verbatim>\<open>hooks\<close>: the command line of its hook when the table has a non-empty command for it and
  the identifier passes the platform filter, nothing otherwise.
\<close>

definition hookCommands ::
  "Env \<Rightarrow> Project \<Rightarrow> (string \<rightharpoonup> string) \<Rightarrow> Options \<Rightarrow> (string \<rightharpoonup> string) \<Rightarrow> string
     \<Rightarrow> (string \<times> string \<times> string list) list" where
  "hookCommands env p hooks opts argReplacements hookIdentifier =
     (if map_index hooks hookIdentifier \<noteq> [] \<and> passesPlatformFilter env p hookIdentifier
      then hookCommandLine opts argReplacements (map_index hooks hookIdentifier)
      else [])"

text \<open>
  The options object at three points of \<^verbatim>\<open>Build\<close>: after the assignments of lines 85 to 91
  for a project \<open>p\<close>; at the start of the compile stage, that is after \<^verbatim>\<open>GenerateBindings\<close>
  has appended its tag when the bindings are not skipped and the build is obfuscated
  (lines 188 to 191); and the substitution map of line 111.
\<close>

definition preludeOptions :: "Env \<Rightarrow> Project \<Rightarrow> Options \<Rightarrow> Options" where
  "preludeOptions env p opts =
     opts\<lparr>WailsJSDir := GetWailsJSDir env p,
          BinDirectory := filepath_Join env (GetBuildDir env p) ''bin'',
          ProjectData := Some (p\<lparr>OutputType_Project := OutputType opts\<rparr>)\<rparr>"

definition bindingsOptions :: "Options \<Rightarrow> Options" where
  "bindingsOptions opts =
     (if \<not> SkipBindings opts \<and> Obfuscated opts
      then opts\<lparr>UserTags := UserTags opts @ [''obfuscated'']\<rparr> else opts)"

definition platformArgs :: "Options \<Rightarrow> (string \<rightharpoonup> string)" where
  "platformArgs opts = [''${platform}'' \<mapsto> Platform opts @ ''/'' @ Arch opts]"

text \<open>The command line of the fusion tool for a base name, in a bin directory.\<close>

definition lipoCommand :: "string \<Rightarrow> string \<Rightarrow> string \<times> string \<times> string list" where
  "lipoCommand dir base =
     (dir, ''lipo'', [''-create'', ''-output'', base, base @ ''-amd64'', base @ ''-arm64''])"

text \<open>
  The tokens of a command template as the specification words them, to be compared with
  the tokens of the code: the template split on whitespace, that is at every space, tab,
  line feed or carriage return.
\<close>

definition is_whitespace :: "char \<Rightarrow> bool" where
  "is_whitespace c = (c = CHR '' '' \<or> c = CHR 0x09 \<or> c = CHR 0x0A \<or> c = CHR 0x0D)"

fun splitOnWhitespace_spec :: "string \<Rightarrow> string list" where
  "splitOnWhitespace_spec [] = [[]]"
| "splitOnWhitespace_spec (c # cs) =
     (if is_whitespace c then [] # splitOnWhitespace_spec cs
      else (case splitOnWhitespace_spec cs of
              [] \<Rightarrow> [[c]]
            | piece # pieces \<Rightarrow> (c # piece) # pieces))"

section \<open>Concrete runs\<close>

text \<open>
  A host on which every collaborator succeeds: the compiler writes its output file into
  the bin directory, the shell commands and the packagers leave the files alone.
\<close>

definition env_ok :: Env where
  "env_ok = \<lparr>GOOS = ''darwin'', os_Getwd = (''/work'', None),
     filepath_Join = (\<lambda>a b. a @ ''/'' @ b), colour_Green = (\<lambda>m. m),
     GetWailsJSDir = (\<lambda>p. Path p @ ''/frontend/wailsjs''),
     GetBuildDir = (\<lambda>p. Path p @ ''/build''),
     builder_OutputFilename = (\<lambda>opts. if OutputFile opts = [] then ''app'' else OutputFile opts),
     builder_BuildFrontend = (\<lambda>fs. (None, fs)),
     builder_CompileProject = (\<lambda>opts fs.
        (None, BinDirectory opts @ ''/'' @ OutputFile opts,
         insert (BinDirectory opts @ ''/'' @ OutputFile opts) fs)),
     builder_CleanUp = (\<lambda>fs. fs),
     staticanalysis_GetEmbedDetails = (\<lambda>path fs. ([], None)),
     os_MkdirAll_effect = (\<lambda>path fs. (None, insert path fs)), os_Create_fails = (\<lambda>path fs. None),
     os_Remove_fails = (\<lambda>path fs. None), fs_DeleteFile_fails = (\<lambda>path fs. None),
     bindings_GenerateBindings = (\<lambda>tags tidy fs. (([], None), fs)),
     shell_RunCommand = (\<lambda>dir cmd args fs.
        if cmd = ''lipo'' then (([], [], None), insert (dir @ ''/'' @ args ! 2) fs)
        else (([], [], None), fs)),
     packageApplicationForWindows = (\<lambda>opts fs. (None, opts, fs)),
     packageProject = (\<lambda>opts platform fs. (None, opts, fs))\<rparr>"

text \<open>The same host with a fusion tool that fails, and with a syso file that cannot be removed.\<close>

definition env_lipo_fails :: Env where
  "env_lipo_fails = env_ok\<lparr>shell_RunCommand := (\<lambda>dir cmd args fs.
     if cmd = ''lipo'' then (([], ''lipo: failed'', Some (Error ''exit status 1'')), fs)
     else (([], [], None), fs))\<rparr>"

definition env_remove_fails :: Env where
  "env_remove_fails = env_ok\<lparr>os_Remove_fails := (\<lambda>path fs. Some (Error ''permission denied''))\<rparr>"

definition demo_project :: Project where
  "demo_project = \<lparr>Name = ''app'', Path = ''/work'', OutputType_Project = [],
     OutputFilename = ''app'', PreBuildHooks = Map.empty, PostBuildHooks = Map.empty,
     RunNonNativeBuildHooks = False\<rparr>"

definition demo_options :: Options where
  "demo_options = \<lparr>LDFlags = [], UserTags = [], OutputType = ''desktop'', Mode = Production,
     ProjectData = Some demo_project, Pack = False, Platform = ''darwin'', Arch = ''arm64'',
     Compiler = ''go'', SkipModTidy = False, IgnoreFrontend = False, IgnoreApplication = False,
     OutputFile = [], BinDirectory = [], CleanBinDirectory = True, CompiledBinary = [],
     KeepAssets = False, Verbosity = 1, Compress = False, CompressFlags = [],
     WebView2Strategy = [], RunDelve = False, WailsJSDir = [], ForceBuild = False,
     BundleName = [], TrimPath = False, RaceDetector = False, WindowsConsole = False,
     Obfuscated = False, GarbleArgs = [], SkipBindings = False\<rparr>"

definition demo_state :: State where
  "demo_state = \<lparr>options = demo_options, files = {}, trace = []\<rparr>"

text \<open>
  A project with a pre-build hook for its own platform and architecture and another for
  every platform; and a configuration that asks for an output type the code does not know.
\<close>

definition demo_state_two_hooks :: State where
  "demo_state_two_hooks =
     demo_state\<lparr>options := demo_options\<lparr>ProjectData := Some (demo_project\<lparr>PreBuildHooks :=
       [''darwin/arm64'' \<mapsto> ''echo specific'', ''*/*'' \<mapsto> ''echo global'']\<rparr>)\<rparr>\<rparr>"

definition demo_state_server :: State where
  "demo_state_server = demo_state\<lparr>options := demo_options\<lparr>OutputType := ''server''\<rparr>\<rparr>"

text \<open>A universal build for darwin, with and without the packaging step.\<close>

definition demo_state_universal :: State where
  "demo_state_universal =
     demo_state\<lparr>options := demo_options\<lparr>Arch := ''universal'', BinDirectory := ''/work/build/bin''\<rparr>\<rparr>"

text \<open>
  The universal build with post-build hooks for \<^verbatim>\<open>darwin/universal\<close> and for \<^verbatim>\<open>darwin/arm64\<close>.
\<close>

definition demo_state_universal_post_hooks :: State where
  "demo_state_universal_post_hooks =
     demo_state\<lparr>options := demo_options\<lparr>Arch := ''universal'',
       ProjectData := Some (demo_project\<lparr>PostBuildHooks :=
         [''darwin/universal'' \<mapsto> ''echo universal'', ''darwin/arm64'' \<mapsto> ''echo arm64'']\<rparr>)\<rparr>\<rparr>"

text \<open>A host on which no file can be deleted, and a packaged build for Windows.\<close>

definition env_delete_fails :: Env where
  "env_delete_fails = env_ok\<lparr>fs_DeleteFile_fails := (\<lambda>path fs. Some (Error ''permission denied''))\<rparr>"

definition demo_state_windows_pack :: State where
  "demo_state_windows_pack =
     demo_state\<lparr>options := demo_options\<lparr>Platform := ''windows'', Arch := ''amd64'', Pack := True\<rparr>\<rparr>"

text \<open>An obfuscated build with one user tag.\<close>

definition demo_state_obfuscated :: State where
  "demo_state_obfuscated =
     demo_state\<lparr>options := demo_options\<lparr>Obfuscated := True, UserTags := [''production'']\<rparr>\<rparr>"

section \<open>Evaluating concrete runs\<close>

lemmas run_defs =
  Build_def deferCleanUp_def buildPipeline_def buildApplicationAndPostHooks_def
  execBuildApplication_def removeSyso_def compileApplication_def compileUniversal_def
  fuseBinaries_def packageAndReturn_def
  webView2LoaderMessage_def expWebView2Loader_def
  CompileProject_def BuildFrontend_def call_packageApplicationForWindows_def call_packageProject_def
  GenerateBindings_def CreateEmbedDirectories_def
  os_MkdirAll_def os_Create_def os_Remove_def fs_DeleteFile_def
  hookIdentifiers_def orReturn_def orReturnErr_def
  execPreBuildHook_def execPostBuildHook_def executeBuildHook_def runBuildHook_def
  substituteArgs_def map_index_def VERBOSE_def printlnVerbose_def emit_def calls_def
  hookCommandLine_def
  passesPlatformFilter_def hookCommands_def preludeOptions_def bindingsOptions_def
  platformArgs_def lipoCommand_def
  env_ok_def env_lipo_fails_def env_remove_fails_def demo_project_def demo_options_def demo_state_def
  demo_state_two_hooks_def demo_state_server_def demo_state_universal_def
  demo_state_universal_post_hooks_def env_delete_fails_def demo_state_windows_pack_def
  demo_state_obfuscated_def

section \<open>Basic facts about the trace and the hooks\<close>

lemma emit_simps [simp]:
  "options (emit e s) = options s" "files (emit e s) = files s" "trace (emit e s) = trace s @ [e]"
  by (simp_all add: emit_def)

lemma printlnVerbose_simps [simp]:
  "options (printlnVerbose fmt args s) = options s"
  "files (printlnVerbose fmt args s) = files s"
  by (simp_all add: printlnVerbose_def)

lemma commands_append [simp]: "commands (xs @ ys) = commands xs @ commands ys"
  by (induction xs rule: commands.induct) simp_all

lemma calls_append [simp]: "calls (xs @ ys) = calls xs @ calls ys"
  by (simp add: calls_def)

lemma calls_Nil [simp]: "calls [] = []"
  by (simp add: calls_def)

lemma calls_Cons [simp]: "calls (e # evs) = (if is_output e then calls evs else e # calls evs)"
  by (simp add: calls_def)

lemma builderLife_append [simp]: "builderLife (xs @ ys) = builderLife xs @ builderLife ys"
  by (simp add: builderLife_def)

lemma builderLife_Nil [simp]: "builderLife [] = []"
  by (simp add: builderLife_def)

lemma builderLife_Cons [simp]:
  "builderLife (e # evs) = (if is_builder_life e then e # builderLife evs else builderLife evs)"
  by (simp add: builderLife_def)

lemma printlnVerbose_trace [simp]:
  "commands (trace (printlnVerbose fmt args s)) = commands (trace s)"
  "calls (trace (printlnVerbose fmt args s)) = calls (trace s)"
  "builderLife (trace (printlnVerbose fmt args s)) = builderLife (trace s)"
  by (simp_all add: printlnVerbose_def)

lemma strings_Split_takeWhile:
  "\<exists>pieces. strings_Split s sep = takeWhile (\<lambda>c. c \<noteq> sep) s # pieces"
  by (induction s) (auto split: list.splits)

lemma strings_Split_not_Nil [simp]: "strings_Split s sep \<noteq> []"
  using strings_Split_takeWhile [of s sep] by auto

lemma strings_Split_no_separator:
  "token \<in> set (strings_Split s sep) \<Longrightarrow> sep \<notin> set token"
proof (induction s arbitrary: token)
  case Nil
  then show ?case by simp
next
  case (Cons c cs)
  obtain piece pieces where split: "strings_Split cs sep = piece # pieces"
    using strings_Split_not_Nil [of cs sep] by (cases "strings_Split cs sep") auto
  with Cons.IH have "sep \<notin> set piece" "\<And>t. t \<in> set pieces \<Longrightarrow> sep \<notin> set t" by simp_all
  with Cons.prems split show ?case by (auto split: if_splits)
qed

lemma strings_Join_Cons:
  "ys \<noteq> [] \<Longrightarrow> strings_Join (x # ys) sep = x @ sep @ strings_Join ys sep"
  by (cases ys) simp_all

lemma strings_Join_Split: "strings_Join (strings_Split s sep) [sep] = s"
proof (induction s)
  case Nil
  show ?case by simp
next
  case (Cons c cs)
  obtain piece pieces where split: "strings_Split cs sep = piece # pieces"
    using strings_Split_not_Nil [of cs sep] by (cases "strings_Split cs sep") auto
  show ?case
  proof (cases "c = sep")
    case True
    with Cons show ?thesis by (simp add: strings_Join_Cons)
  next
    case False
    with Cons split show ?thesis by (cases pieces) simp_all
  qed
qed

lemma substituteArgs_not_Nil [simp]: "substituteArgs m (strings_Split s sep) \<noteq> []"
  by (simp add: substituteArgs_def)

lemma substituteArgs_tokens:
  "substituteArgs m tokens =
     map (\<lambda>token. case m token of None \<Rightarrow> token | Some v \<Rightarrow> if v = [] then token else v) tokens"
  by (auto simp: substituteArgs_def map_index_def Let_def split: option.splits)

lemma runBuildHook_options [simp]:
  "options (snd (runBuildHook env h m b n s)) = options s"
  by (simp add: runBuildHook_def Let_def split_beta split: list.splits option.splits)

lemma runBuildHook_not_Exits [simp]:
  "fst (runBuildHook env h m b n s) \<noteq> Exits"
  by (simp add: runBuildHook_def Let_def split_beta split: list.splits option.splits)

lemma runBuildHook_commands:
  "commands (trace (snd (runBuildHook env h m b n s))) =
     commands (trace s) @ hookCommandLine (options s) m b"
  by (simp add: runBuildHook_def hookCommandLine_def Let_def split_beta
        split: list.splits option.splits)

lemma runBuildHook_builderLife [simp]:
  "builderLife (trace (snd (runBuildHook env h m b n s))) = builderLife (trace s)"
  by (simp add: runBuildHook_def Let_def split_beta split: list.splits option.splits)

lemma runBuildHook_not_Panics [simp]:
  "fst (runBuildHook env h m b n s) \<noteq> Panics"
  by (simp add: runBuildHook_def Let_def split_beta split: list.splits option.splits)

text \<open>The run of a hook command, given the command line and what the shell answers.\<close>

lemma runBuildHook_run:
  assumes "substituteArgs m (strings_Split b CHR '' '') = cmd # rest"
    and "shell_RunCommand env (BinDirectory (options s)) cmd rest (files s) = ((out, errout, err), files')"
  shows "fst (runBuildHook env h m b n s)
           = Returns (case err of None \<Rightarrow> None
                      | Some e \<Rightarrow> Some (Error (Error_text e @ '' - '' @ errout)))"
    and "files (snd (runBuildHook env h m b n s)) = files'"
    and "calls (trace (snd (runBuildHook env h m b n s)))
           = calls (trace s) @ [EvRunCommand (BinDirectory (options s)) cmd rest]"
  using assms by (simp_all add: runBuildHook_def Let_def split: option.splits)

lemma executeBuildHook_cases:
  assumes "ProjectData (options s) = Some p"
  shows "executeBuildHook env h m b n s =
           (if passesPlatformFilter env p h then runBuildHook env h m b n s
            else (Returns None, emit (EvLog fmt_NonNativeHook [h]) s))"
proof -
  obtain pieces where "strings_Split h CHR ''/'' = takeWhile (\<lambda>c. c \<noteq> CHR ''/'') h # pieces"
    using strings_Split_takeWhile by blast
  with assms show ?thesis
    by (simp add: executeBuildHook_def passesPlatformFilter_def)
qed

lemma hookCommandLine_not_Nil [simp]: "hookCommandLine opts m b \<noteq> []"
  by (simp add: hookCommandLine_def split: list.splits)

lemma executeBuildHook_options [simp]:
  "options (snd (executeBuildHook env h m b n s)) = options s"
  by (simp add: executeBuildHook_def split: option.splits list.splits)

lemma executeBuildHook_not_Exits [simp]:
  "fst (executeBuildHook env h m b n s) \<noteq> Exits"
  by (simp add: executeBuildHook_def split: option.splits list.splits)

lemma executeBuildHook_builderLife [simp]:
  "builderLife (trace (snd (executeBuildHook env h m b n s))) = builderLife (trace s)"
  by (simp add: executeBuildHook_def split: option.splits list.splits)

lemma executeBuildHook_not_Panics:
  "ProjectData (options s) = Some p \<Longrightarrow> fst (executeBuildHook env h m b n s) \<noteq> Panics"
  by (simp add: executeBuildHook_cases)

lemma executeBuildHook_commands:
  "ProjectData (options s) = Some p \<Longrightarrow>
   commands (trace (snd (executeBuildHook env h m b n s))) =
     commands (trace s) @ (if passesPlatformFilter env p h then hookCommandLine (options s) m b else [])"
  by (simp add: executeBuildHook_cases runBuildHook_commands)

lemma execPreBuildHook_options [simp]:
  "options (snd (execPreBuildHook env h m s)) = options s"
  by (simp add: execPreBuildHook_def Let_def split: option.splits)

lemma execPostBuildHook_options [simp]:
  "options (snd (execPostBuildHook env h m s)) = options s"
  by (simp add: execPostBuildHook_def Let_def split: option.splits)

lemma execPreBuildHook_not_Exits [simp]: "fst (execPreBuildHook env h m s) \<noteq> Exits"
  by (simp add: execPreBuildHook_def Let_def split: option.splits)

lemma execPostBuildHook_not_Exits [simp]: "fst (execPostBuildHook env h m s) \<noteq> Exits"
  by (simp add: execPostBuildHook_def Let_def split: option.splits)

lemma execPreBuildHook_builderLife [simp]:
  "builderLife (trace (snd (execPreBuildHook env h m s))) = builderLife (trace s)"
  by (simp add: execPreBuildHook_def Let_def split: option.splits)

lemma execPostBuildHook_builderLife [simp]:
  "builderLife (trace (snd (execPostBuildHook env h m s))) = builderLife (trace s)"
  by (simp add: execPostBuildHook_def Let_def split: option.splits)

lemma execPreBuildHook_not_Panics:
  "ProjectData (options s) = Some p \<Longrightarrow> fst (execPreBuildHook env h m s) \<noteq> Panics"
  by (simp add: execPreBuildHook_def Let_def executeBuildHook_not_Panics)

lemma execPostBuildHook_not_Panics:
  "ProjectData (options s) = Some p \<Longrightarrow> fst (execPostBuildHook env h m s) \<noteq> Panics"
  by (simp add: execPostBuildHook_def Let_def executeBuildHook_not_Panics)

lemma execPreBuildHook_commands:
  "ProjectData (options s) = Some p \<Longrightarrow>
   commands (trace (snd (execPreBuildHook env h m s))) =
     commands (trace s) @ hookCommands env p (PreBuildHooks p) (options s) m h"
  by (simp add: execPreBuildHook_def Let_def executeBuildHook_commands hookCommands_def)

lemma execPostBuildHook_commands:
  "ProjectData (options s) = Some p \<Longrightarrow>
   commands (trace (snd (execPostBuildHook env h m s))) =
     commands (trace s) @ hookCommands env p (PostBuildHooks p) (options s) m h"
  by (simp add: execPostBuildHook_def Let_def executeBuildHook_commands hookCommands_def)

text \<open>A hook that starts no command returns no error, so the loop goes on to the next one.\<close>

lemma execPreBuildHook_no_command:
  "ProjectData (options s) = Some p \<Longrightarrow> hookCommands env p (PreBuildHooks p) opts m h = [] \<Longrightarrow>
   fst (execPreBuildHook env h m s) = Returns None"
  by (auto simp: execPreBuildHook_def Let_def executeBuildHook_cases hookCommands_def
        split: if_splits)

lemma execPostBuildHook_no_command:
  "ProjectData (options s) = Some p \<Longrightarrow> hookCommands env p (PostBuildHooks p) opts m h = [] \<Longrightarrow>
   fst (execPostBuildHook env h m s) = Returns None"
  by (auto simp: execPostBuildHook_def Let_def executeBuildHook_cases hookCommands_def
        split: if_splits)

section \<open>Claims about the hook executor\<close>

text \<open>
  Claim C6, as the code has it. \<^verbatim>\<open>executeBuildHook\<close> splits the command template at every
  single space character (\<^verbatim>\<open>strings.Split(buildHook, " ")\<close>), not on whitespace: joining
  the tokens with a space gives the template back and no token contains a space, so two
  adjacent spaces delimit an empty token, and a tab or a line feed separates nothing. A
  token that the substitution map sends to a non-empty value is replaced by that value; a
  token absent from the map is kept as it is, and so is a token that the map sends to the
  empty string. The first token after substitution is the command and the others are its
  arguments. When the project data are set, \<^verbatim>\<open>executeBuildHook\<close> calls the shell with
  exactly this command line, in the bin directory, if the hook identifier passes the
  platform filter, and then returns what that call gives (no error, or the error with the
  standard error output appended) and leaves the files as that call leaves them; if the
  identifier does not pass the filter, it calls nothing.
\<close>

theorem executeBuildHook_substitution:
  fixes argReplacements :: "string \<rightharpoonup> string" and buildHook :: string
  defines "tokens \<equiv> strings_Split buildHook CHR '' ''"
  defines "args \<equiv> map (\<lambda>token. case argReplacements token of
                                    None \<Rightarrow> token
                                  | Some v \<Rightarrow> if v = [] then token else v) tokens"
  assumes "ProjectData (options s) = Some p"
  shows "strings_Join tokens '' '' = buildHook
       \<and> (\<forall>token \<in> set tokens. CHR '' '' \<notin> set token)
       \<and> (\<exists>cmd rest out errout err files'.
             args = cmd # rest
           \<and> shell_RunCommand env (BinDirectory (options s)) cmd rest (files s)
               = ((out, errout, err), files')
           \<and> (if RunNonNativeBuildHooks p \<or> hookIdentifier = []
                  \<or> takeWhile (\<lambda>c. c \<noteq> CHR ''/'') hookIdentifier = ''*''
                  \<or> takeWhile (\<lambda>c. c \<noteq> CHR ''/'') hookIdentifier = GOOS env
               then calls (trace (snd (executeBuildHook env hookIdentifier argReplacements buildHook hookName s)))
                      = calls (trace s) @ [EvRunCommand (BinDirectory (options s)) cmd rest]
                  \<and> fst (executeBuildHook env hookIdentifier argReplacements buildHook hookName s)
                      = Returns (case err of
                                   None \<Rightarrow> None
                                 | Some e \<Rightarrow> Some (Error (Error_text e @ '' - '' @ errout)))
                  \<and> files (snd (executeBuildHook env hookIdentifier argReplacements buildHook hookName s))
                      = files'
               else calls (trace (snd (executeBuildHook env hookIdentifier argReplacements buildHook hookName s)))
                      = calls (trace s)
                  \<and> fst (executeBuildHook env hookIdentifier argReplacements buildHook hookName s)
                      = Returns None
                  \<and> files (snd (executeBuildHook env hookIdentifier argReplacements buildHook hookName s))
                      = files s))"
proof -
  obtain cmd rest where line: "substituteArgs argReplacements (strings_Split buildHook CHR '' '') = cmd # rest"
    using substituteArgs_not_Nil [of argReplacements buildHook "CHR '' ''"] by (meson list.exhaust)
  obtain out errout err files' where
    run: "shell_RunCommand env (BinDirectory (options s)) cmd rest (files s) = ((out, errout, err), files')"
    by (metis prod.exhaust)
  from line have args: "args = cmd # rest"
    by (simp add: args_def tokens_def substituteArgs_tokens)
  have join: "strings_Join tokens '' '' = buildHook"
    using strings_Join_Split [of buildHook "CHR '' ''"] by (simp add: tokens_def)
  have nospace: "\<forall>token \<in> set tokens. CHR '' '' \<notin> set token"
    using strings_Split_no_separator [of _ buildHook "CHR '' ''"] by (simp add: tokens_def)
  have hook: "if RunNonNativeBuildHooks p \<or> hookIdentifier = []
                  \<or> takeWhile (\<lambda>c. c \<noteq> CHR ''/'') hookIdentifier = ''*''
                  \<or> takeWhile (\<lambda>c. c \<noteq> CHR ''/'') hookIdentifier = GOOS env
               then calls (trace (snd (executeBuildHook env hookIdentifier argReplacements buildHook hookName s)))
                      = calls (trace s) @ [EvRunCommand (BinDirectory (options s)) cmd rest]
                  \<and> fst (executeBuildHook env hookIdentifier argReplacements buildHook hookName s)
                      = Returns (case err of
                                   None \<Rightarrow> None
                                 | Some e \<Rightarrow> Some (Error (Error_text e @ '' - '' @ errout)))
                  \<and> files (snd (executeBuildHook env hookIdentifier argReplacements buildHook hookName s))
                      = files'
               else calls (trace (snd (executeBuildHook env hookIdentifier argReplacements buildHook hookName s)))
                      = calls (trace s)
                  \<and> fst (executeBuildHook env hookIdentifier argReplacements buildHook hookName s)
                      = Returns None
                  \<and> files (snd (executeBuildHook env hookIdentifier argReplacements buildHook hookName s))
                      = files s"
    using executeBuildHook_cases [OF assms(3), of env hookIdentifier argReplacements buildHook hookName]
      runBuildHook_run [OF line run, of hookIdentifier hookName]
    by (simp add: passesPlatformFilter_def)
  from join nospace args run hook show ?thesis by blast
qed

theorem executeBuildHook_substitution_witness:
  "calls (trace (snd (executeBuildHook env_ok ''*/*''
       [''${platform}'' \<mapsto> ''darwin/arm64'', ''${bin}'' \<mapsto> []] ''sign  ${bin} ${platform} ${other}'' ''post'' demo_state)))
     = [EvRunCommand [] ''sign'' [[], ''${bin}'', ''darwin/arm64'', ''${other}'']]
   \<and> fst (executeBuildHook env_ok ''*/*''
       [''${platform}'' \<mapsto> ''darwin/arm64'', ''${bin}'' \<mapsto> []] ''sign  ${bin} ${platform} ${other}'' ''post'' demo_state)
     = Returns None"
  using executeBuildHook_substitution [where argReplacements = "[''${platform}'' \<mapsto> ''darwin/arm64'', ''${bin}'' \<mapsto> []]"
          and buildHook = "''sign  ${bin} ${platform} ${other}''" and env = env_ok and p = demo_project
          and hookIdentifier = "''*/*''" and hookName = "''post''" and s = demo_state]
  by (simp add: demo_state_def demo_options_def env_ok_def)

text \<open>
  The claim as worded fails on a template whose tokens are separated by a tab: split on
  whitespace, the template \<^verbatim>\<open>echo<TAB>${bin}\<close> has the two tokens \<^verbatim>\<open>echo\<close> and \<^verbatim>\<open>${bin}\<close>, and
  the map has a value for \<^verbatim>\<open>${bin}\<close>; the code starts the whole template as one command
  name, with no argument and nothing replaced.
\<close>

theorem whitespace_split_counterexample:
  "splitOnWhitespace_spec (''echo'' @ [CHR 0x09] @ ''${bin}'') = [''echo'', ''${bin}'']
   \<and> calls (trace (snd (executeBuildHook env_ok ''*/*'' [''${bin}'' \<mapsto> ''/work/build/bin/app'']
         (''echo'' @ [CHR 0x09] @ ''${bin}'') ''post'' demo_state)))
       = [EvRunCommand [] (''echo'' @ [CHR 0x09] @ ''${bin}'') []]"
  by (simp add: run_defs is_whitespace_def)

text \<open>
  Claim C7. With the override \<^verbatim>\<open>RunNonNativeBuildHooks\<close> disabled, a hook whose identifier
  is not empty and whose platform part (the text before the first slash) is neither \<^verbatim>\<open>*\<close>
  nor the host platform is skipped: the call returns no error, calls no collaborator
  (no subprocess), and leaves the files and the options as they are. A hook whose
  identifier is empty or whose platform part is \<^verbatim>\<open>*\<close> passes the filter whatever the
  override says: the call is the run of the command, which starts exactly one subprocess.
\<close>

theorem executeBuildHook_platform_filter:
  assumes "ProjectData (options s) = Some p"
  shows "(\<not> RunNonNativeBuildHooks p \<and> hookIdentifier \<noteq> []
            \<and> takeWhile (\<lambda>c. c \<noteq> CHR ''/'') hookIdentifier \<noteq> ''*''
            \<and> takeWhile (\<lambda>c. c \<noteq> CHR ''/'') hookIdentifier \<noteq> GOOS env
          \<longrightarrow> fst (executeBuildHook env hookIdentifier argReplacements buildHook hookName s) = Returns None
              \<and> calls (trace (snd (executeBuildHook env hookIdentifier argReplacements buildHook hookName s)))
                  = calls (trace s)
              \<and> files (snd (executeBuildHook env hookIdentifier argReplacements buildHook hookName s)) = files s
              \<and> options (snd (executeBuildHook env hookIdentifier argReplacements buildHook hookName s)) = options s)
       \<and> (hookIdentifier = [] \<or> takeWhile (\<lambda>c. c \<noteq> CHR ''/'') hookIdentifier = ''*''
          \<longrightarrow> executeBuildHook env hookIdentifier argReplacements buildHook hookName s
                = runBuildHook env hookIdentifier argReplacements buildHook hookName s
              \<and> commands (trace (snd (executeBuildHook env hookIdentifier argReplacements buildHook hookName s)))
                  = commands (trace s) @ hookCommandLine (options s) argReplacements buildHook
              \<and> length (hookCommandLine (options s) argReplacements buildHook) = 1)"
  using executeBuildHook_cases [OF assms, of env hookIdentifier argReplacements buildHook hookName]
  by (auto simp: passesPlatformFilter_def runBuildHook_commands calls_def hookCommandLine_def
           split: list.splits)

theorem executeBuildHook_platform_filter_witness:
  "fst (executeBuildHook env_ok ''windows/amd64'' Map.empty ''echo hello'' ''pre'' demo_state) = Returns None
   \<and> calls (trace (snd (executeBuildHook env_ok ''windows/amd64'' Map.empty ''echo hello'' ''pre'' demo_state))) = []
   \<and> commands (trace (snd (executeBuildHook env_ok ''*/*'' Map.empty ''echo hello'' ''pre'' demo_state)))
       = [([], ''echo'', [''hello''])]"
  using executeBuildHook_platform_filter [where s = demo_state and p = demo_project and env = env_ok
          and hookIdentifier = "''windows/amd64''" and argReplacements = Map.empty
          and buildHook = "''echo hello''" and hookName = "''pre''"]
        executeBuildHook_platform_filter [where s = demo_state and p = demo_project and env = env_ok
          and hookIdentifier = "''*/*''" and argReplacements = Map.empty
          and buildHook = "''echo hello''" and hookName = "''pre''"]
  by (simp add: run_defs)

section \<open>The loop over the hook identifiers\<close>

lemma forEachHook_options:
  assumes "\<And>k s. options (snd (exec k s)) = options s"
  shows "options (snd (forEachHook exec keys s)) = options s"
proof (induction keys arbitrary: s)
  case Nil
  show ?case by simp
next
  case (Cons k keys)
  obtain r s1 where step: "exec k s = (r, s1)" by (cases "exec k s")
  with assms [of k s] have "options s1 = options s" by simp
  with Cons [of s1] step show ?case
    by (simp add: orReturnErr_def split: outcome.splits option.splits)
qed

lemma forEachHook_not_Exits:
  assumes "\<And>k s. fst (exec k s) \<noteq> Exits"
  shows "fst (forEachHook exec keys s) \<noteq> Exits"
proof (induction keys arbitrary: s)
  case Nil
  show ?case by simp
next
  case (Cons k keys)
  obtain r s1 where step: "exec k s = (r, s1)" by (cases "exec k s")
  with assms [of k s] have "r \<noteq> Exits" by simp
  with Cons [of s1] step show ?case
    by (simp add: orReturnErr_def split: outcome.splits option.splits)
qed

lemma forEachHook_not_Panics:
  assumes "\<And>k s. options (snd (exec k s)) = options s"
    and "\<And>k s. ProjectData (options s) = Some p \<Longrightarrow> fst (exec k s) \<noteq> Panics"
    and "ProjectData (options s) = Some p"
  shows "fst (forEachHook exec keys s) \<noteq> Panics"
  using assms(3)
proof (induction keys arbitrary: s)
  case Nil
  show ?case by simp
next
  case (Cons k keys)
  obtain r s1 where step: "exec k s = (r, s1)" by (cases "exec k s")
  with assms(1) [of k s] assms(2) [of s k] Cons.prems
  have "options s1 = options s" "r \<noteq> Panics" by simp_all
  with Cons.IH [of s1] Cons.prems step show ?case
    by (simp add: orReturnErr_def split: outcome.splits option.splits)
qed

lemma forEachHook_commands:
  assumes "\<And>k s. options (snd (exec k s)) = options s"
    and "\<And>k s. ProjectData (options s) = Some p \<Longrightarrow>
           commands (trace (snd (exec k s))) = commands (trace s) @ f (options s) k"
    and "ProjectData (options s) = Some p"
  shows "\<exists>n\<le>length keys.
           commands (trace (snd (forEachHook exec keys s)))
             = commands (trace s) @ concat (map (f (options s)) (take n keys))
         \<and> (fst (forEachHook exec keys s) = Returns None \<longrightarrow> n = length keys)"
  using assms(3)
proof (induction keys arbitrary: s)
  case Nil
  show ?case by simp
next
  case (Cons k keys)
  obtain r s1 where step: "exec k s = (r, s1)" by (cases "exec k s")
  with assms(1) [of k s] assms(2) [of s k] Cons.prems
  have o: "options s1 = options s"
    and c: "commands (trace s1) = commands (trace s) @ f (options s) k" by simp_all
  show ?case
  proof (cases "r = Returns None")
    case True
    from Cons.IH [of s1] o Cons.prems obtain n where n: "n \<le> length keys"
      "commands (trace (snd (forEachHook exec keys s1)))
         = commands (trace s1) @ concat (map (f (options s)) (take n keys))"
      "fst (forEachHook exec keys s1) = Returns None \<longrightarrow> n = length keys"
      by auto
    with True step c show ?thesis
      by (intro exI [of _ "Suc n"]) (simp add: orReturnErr_def)
  next
    case False
    with step c show ?thesis
      by (intro exI [of _ "Suc 0"]) (simp add: orReturnErr_def split: outcome.splits option.splits)
  qed
qed

lemma forEachHook_preserves:
  assumes "\<And>k s. f (snd (exec k s)) = f s"
  shows "f (snd (forEachHook exec keys s)) = f s"
proof (induction keys arbitrary: s)
  case Nil
  show ?case by simp
next
  case (Cons k keys)
  obtain r s1 where step: "exec k s = (r, s1)" by (cases "exec k s")
  with assms [of k s] have "f s1 = f s" by simp
  with Cons [of s1] step show ?case
    by (simp add: orReturnErr_def split: outcome.splits option.splits)
qed

section \<open>What each stage leaves of the options and of the trace\<close>

lemma os_primitives_options [simp]:
  "options (snd (os_MkdirAll env path s)) = options s"
  "options (snd (os_Create env path s)) = options s"
  "options (snd (os_Remove env path s)) = options s"
  "options (snd (fs_DeleteFile env path s)) = options s"
  by (simp_all add: os_MkdirAll_def os_Create_def os_Remove_def fs_DeleteFile_def split_beta
        split: option.splits)

lemma os_primitives_commands [simp]:
  "commands (trace (snd (os_MkdirAll env path s))) = commands (trace s)"
  "commands (trace (snd (os_Create env path s))) = commands (trace s)"
  "commands (trace (snd (os_Remove env path s))) = commands (trace s)"
  "commands (trace (snd (fs_DeleteFile env path s))) = commands (trace s)"
  by (simp_all add: os_MkdirAll_def os_Create_def os_Remove_def fs_DeleteFile_def split_beta
        split: option.splits)

lemma os_primitives_builderLife [simp]:
  "builderLife (trace (snd (os_MkdirAll env path s))) = builderLife (trace s)"
  "builderLife (trace (snd (os_Create env path s))) = builderLife (trace s)"
  "builderLife (trace (snd (os_Remove env path s))) = builderLife (trace s)"
  "builderLife (trace (snd (fs_DeleteFile env path s))) = builderLife (trace s)"
  by (simp_all add: os_MkdirAll_def os_Create_def os_Remove_def fs_DeleteFile_def split_beta
        split: option.splits)

lemma createEmbedDirectory_preserves:
  assumes "\<And>path s. f (snd (os_MkdirAll env path s)) = f s"
    and "\<And>path s. f (snd (os_Create env path s)) = f s"
  shows "f (snd (createEmbedDirectory env embedDetails s)) = f s"
proof (induction embedDetails arbitrary: s)
  case Nil
  show ?case by simp
next
  case (Cons fullPath embedDetails)
  show ?case
  proof (cases "fullPath \<in> files s")
    case True
    then show ?thesis using Cons [of s] by simp
  next
    case False
    obtain r1 s1 where m: "os_MkdirAll env fullPath s = (r1, s1)"
      by (cases "os_MkdirAll env fullPath s")
    obtain r2 s2 where c: "os_Create env (filepath_Join env fullPath ''gitkeep'') s1 = (r2, s2)"
      by (cases "os_Create env (filepath_Join env fullPath ''gitkeep'') s1")
    have o1: "f s1 = f s"
      using assms(1) [of fullPath s] m by simp
    have o2: "f s2 = f s1"
      using assms(2) [of "filepath_Join env fullPath ''gitkeep''" s1] c by simp
    show ?thesis
      using False m c o1 o2 Cons [of s2] by (simp split: option.splits)
  qed
qed

lemma createEmbedDirectory_options [simp]:
  "options (snd (createEmbedDirectory env embedDetails s)) = options s"
  by (rule createEmbedDirectory_preserves) simp_all

lemma createEmbedDirectory_commands [simp]:
  "commands (trace (snd (createEmbedDirectory env embedDetails s))) = commands (trace s)"
  by (rule createEmbedDirectory_preserves [where f = "\<lambda>s. commands (trace s)"]) simp_all

lemma createEmbedDirectory_builderLife [simp]:
  "builderLife (trace (snd (createEmbedDirectory env embedDetails s))) = builderLife (trace s)"
  by (rule createEmbedDirectory_preserves [where f = "\<lambda>s. builderLife (trace s)"]) simp_all

lemma createEmbedDirectory_returns:
  "\<exists>err. fst (createEmbedDirectory env embedDetails s) = Returns err"
  by (induction embedDetails arbitrary: s) (simp_all add: split_beta split: option.splits)

lemma CreateEmbedDirectories_options [simp]:
  "options (snd (CreateEmbedDirectories env cwd s)) = options s"
  by (simp add: CreateEmbedDirectories_def Let_def split_beta split: option.splits)

lemma CreateEmbedDirectories_trace [simp]:
  "commands (trace (snd (CreateEmbedDirectories env cwd s))) = commands (trace s)"
  "builderLife (trace (snd (CreateEmbedDirectories env cwd s))) = builderLife (trace s)"
  by (simp_all add: CreateEmbedDirectories_def Let_def split_beta split: option.splits)

lemma CreateEmbedDirectories_returns:
  "\<exists>err. fst (CreateEmbedDirectories env cwd s) = Returns err"
  by (simp add: CreateEmbedDirectories_def Let_def createEmbedDirectory_returns split_beta
        split: option.splits)

lemma GenerateBindings_options:
  "options (snd (GenerateBindings env s)) =
     (if Obfuscated (options s)
      then (options s)\<lparr>UserTags := UserTags (options s) @ [''obfuscated'']\<rparr>
      else options s)"
proof (cases "Obfuscated (options s)")
  case True
  then show ?thesis
    by (simp add: GenerateBindings_def Let_def split_beta split: option.splits)
next
  case False
  then show ?thesis
    by (simp add: GenerateBindings_def Let_def split_beta split: option.splits)
qed

lemma GenerateBindings_trace [simp]:
  "commands (trace (snd (GenerateBindings env s))) = commands (trace s)"
  "builderLife (trace (snd (GenerateBindings env s))) = builderLife (trace s)"
  by (simp_all add: GenerateBindings_def Let_def split_beta split: option.splits)

lemma GenerateBindings_returns:
  "\<exists>err. fst (GenerateBindings env s) = Returns err"
  by (simp add: GenerateBindings_def Let_def split_beta split: option.splits)

lemma BuildFrontend_options [simp]: "options (snd (BuildFrontend env s)) = options s"
  by (simp add: BuildFrontend_def split_beta)

lemma BuildFrontend_trace [simp]:
  "commands (trace (snd (BuildFrontend env s))) = commands (trace s)"
  "builderLife (trace (snd (BuildFrontend env s))) = builderLife (trace s)"
  by (simp_all add: BuildFrontend_def split_beta)

lemma BuildFrontend_returns: "\<exists>err. fst (BuildFrontend env s) = Returns err"
  by (simp add: BuildFrontend_def split_beta)

section \<open>Claims about the pipeline\<close>

text \<open>
  Claim C3, as the code has it. When the output type is neither \<^verbatim>\<open>desktop\<close> nor \<^verbatim>\<open>dev\<close>,
  \<^verbatim>\<open>Build\<close> adds nothing to the trace (no hook, no directory, no subprocess, no builder)
  and leaves the files alone. It returns the error of \<^verbatim>\<open>os.Getwd\<close> when that fails, panics
  on a nil project, and otherwise returns the configuration error with the empty path;
  by then it has overwritten \<^verbatim>\<open>WailsJSDir\<close> and \<^verbatim>\<open>BinDirectory\<close> of the options and the
  output type of the project, and nothing else.
\<close>

theorem Build_unknown_output_type:
  assumes "OutputType (options s) \<noteq> ''desktop''" and "OutputType (options s) \<noteq> ''dev''"
  shows "trace (snd (Build env s)) = trace s \<and> files (snd (Build env s)) = files s
       \<and> (\<forall>cwd err. os_Getwd env = (cwd, Some err) \<longrightarrow> Build env s = (Returns ([], Some err), s))
       \<and> (\<forall>cwd. os_Getwd env = (cwd, None) \<and> ProjectData (options s) = None
             \<longrightarrow> Build env s = (Panics, s))
       \<and> (\<forall>cwd p. os_Getwd env = (cwd, None) \<and> ProjectData (options s) = Some p
             \<longrightarrow> Build env s =
                   (Returns ([], Some (Error (''cannot build assets for output type ''
                                                @ OutputType (options s)))),
                    s\<lparr>options := (options s)
                       \<lparr>WailsJSDir := GetWailsJSDir env p,
                        BinDirectory := filepath_Join env (GetBuildDir env p) ''bin'',
                        ProjectData := Some (p\<lparr>OutputType_Project := OutputType (options s)\<rparr>)\<rparr>\<rparr>))"
proof -
  obtain cwd err where wd: "os_Getwd env = (cwd, err)"
    by (cases "os_Getwd env")
  show ?thesis
  proof (cases err)
    case (Some e)
    with wd show ?thesis by (simp add: Build_def)
  next
    case None
    show ?thesis
    proof (cases "ProjectData (options s)")
      case None
      with wd \<open>err = None\<close> show ?thesis by (simp add: Build_def)
    next
      case (Some p)
      with wd \<open>err = None\<close> assms show ?thesis by (simp add: Build_def Let_def)
    qed
  qed
qed

theorem Build_unknown_output_type_witness:
  "Build env_ok demo_state_server =
     (Returns ([], Some (Error ''cannot build assets for output type server'')),
      demo_state_server\<lparr>options := (options demo_state_server)
         \<lparr>WailsJSDir := ''/work/frontend/wailsjs'', BinDirectory := ''/work/build/bin'',
          ProjectData := Some (demo_project\<lparr>OutputType_Project := ''server''\<rparr>)\<rparr>\<rparr>)"
  using Build_unknown_output_type [where s = demo_state_server and env = env_ok]
  by (simp add: env_ok_def demo_state_server_def demo_state_def demo_options_def demo_project_def)

text \<open>
  The claim as stated, that the configuration is unchanged on this error path, fails: for
  the output type \<^verbatim>\<open>server\<close> the bin directory of the options is no longer what it was.
\<close>

theorem Build_unknown_output_type_counterexample:
  "OutputType (options demo_state_server) \<noteq> ''desktop''
   \<and> OutputType (options demo_state_server) \<noteq> ''dev''
   \<and> BinDirectory (options (snd (Build env_ok demo_state_server)))
       \<noteq> BinDirectory (options demo_state_server)"
  by (simp add: run_defs)

section \<open>The compile stage\<close>

lemma orReturnErr_nil [simp]: "orReturnErr (Returns None, s) rest = rest s"
  by (simp add: orReturnErr_def)

lemma state_if [simp]:
  "options (if c then x else y) = (if c then options x else options y)"
  "files (if c then x else y) = (if c then files x else files y)"
  "trace (if c then x else y) = (if c then trace x else trace y)"
  by simp_all

lemma calls_snoc [simp]: "calls (evs @ [e]) = calls evs @ (if is_output e then [] else [e])"
  by (simp add: calls_def)

lemma orReturn_simps [simp]:
  "orReturn (Returns None, s) rest = rest s"
  "orReturn (Returns (Some err), s) rest = (Returns ([], Some err), s)"
  "orReturn (Panics, s) rest = (Panics, s)"
  "orReturn (Exits, s) rest = (Exits, s)"
  by (simp_all add: orReturn_def)

lemma orReturnErr_simps [simp]:
  "orReturnErr (Returns (Some err), s) rest = (Returns (Some err), s)"
  "orReturnErr (Panics, s) rest = (Panics, s)"
  "orReturnErr (Exits, s) rest = (Exits, s)"
  by (simp_all add: orReturnErr_def)

lemma CompileProject_eq:
  "builder_CompileProject env (options s) (files s) = (err, compiledBinary, files') \<Longrightarrow>
   CompileProject env s =
     (Returns err,
      s\<lparr>trace := trace s @ [EvCompileProject (options s)], files := files',
        options := (options s)\<lparr>CompiledBinary := compiledBinary\<rparr>\<rparr>)"
  by (simp add: CompileProject_def emit_def)

lemma CompileProject_trace [simp]:
  "commands (trace (snd (CompileProject env s))) = commands (trace s)"
  "builderLife (trace (snd (CompileProject env s))) = builderLife (trace s)"
  by (simp_all add: CompileProject_def split_beta)

lemma CompileProject_returns: "\<exists>err. fst (CompileProject env s) = Returns err"
  by (simp add: CompileProject_def split_beta)

lemma call_packageProject_cases:
  obtains (ok) options' files' where
      "packageProject env (options s) platform (files s) = (None, options', files')"
      "call_packageProject env platform s =
         (Returns None, (emit (EvPackageProject platform) s)\<lparr>files := files', options := options'\<rparr>)"
    | (failed) e options' files' where
      "packageProject env (options s) platform (files s) = (Some e, options', files')"
      "call_packageProject env platform s =
         (Returns (Some e), (emit (EvPackageProject platform) s)\<lparr>files := files', options := options'\<rparr>)"
proof (cases "packageProject env (options s) platform (files s)")
  case (fields err options' files')
  then show ?thesis
    using ok [of options' files'] failed [of _ options' files']
    by (cases err) (simp_all add: call_packageProject_def)
qed

lemma packagers_trace [simp]:
  "commands (trace (snd (call_packageProject env platform s))) = commands (trace s)"
  "builderLife (trace (snd (call_packageProject env platform s))) = builderLife (trace s)"
  "commands (trace (snd (call_packageApplicationForWindows env s))) = commands (trace s)"
  "builderLife (trace (snd (call_packageApplicationForWindows env s))) = builderLife (trace s)"
  by (simp_all add: call_packageProject_def call_packageApplicationForWindows_def split_beta)

lemma packagers_return:
  "\<exists>err. fst (call_packageProject env platform s) = Returns err"
  "\<exists>err. fst (call_packageApplicationForWindows env s) = Returns err"
  by (simp_all add: call_packageProject_def call_packageApplicationForWindows_def split_beta)

lemma packageAndReturn_frame:
  "\<exists>path err evs. fst (packageAndReturn env s) = Returns (path, err)
     \<and> trace (snd (packageAndReturn env s)) = trace s @ evs
     \<and> commands evs = [] \<and> builderLife evs = []"
proof (cases "Pack (options s)")
  case False
  then show ?thesis
    by (simp add: packageAndReturn_def Let_def)
next
  case True
  show ?thesis
  proof (cases "Platform (options s) = ''windows''")
    case True
    then show ?thesis
      by (simp add: packageAndReturn_def Let_def)
  next
    case False
    with \<open>Pack (options s)\<close> show ?thesis
      by (cases rule: call_packageProject_cases [where env = env and platform = "GOOS env"
            and s = "emit (EvLog fmt_PackagingApplication []) (emit (EvLog fmt_Done []) s)"])
        (simp_all add: packageAndReturn_def Let_def)
  qed
qed

lemma packageAndReturn_trace [simp]:
  "commands (trace (snd (packageAndReturn env s))) = commands (trace s)"
  "builderLife (trace (snd (packageAndReturn env s))) = builderLife (trace s)"
  using packageAndReturn_frame [of env s] by auto

lemma packageAndReturn_not_Exits [simp]:
  "fst (packageAndReturn env s) \<noteq> Exits" "fst (packageAndReturn env s) \<noteq> Panics"
  using packageAndReturn_frame [of env s] by auto

lemma packageAndReturn_no_Pack:
  "\<not> Pack (options s) \<Longrightarrow>
   fst (packageAndReturn env s) = Returns (CompiledBinary (options s), None)
   \<and> files (snd (packageAndReturn env s)) = files s
   \<and> options (snd (packageAndReturn env s)) = options s
   \<and> calls (trace (snd (packageAndReturn env s))) = calls (trace s)"
  by (simp add: packageAndReturn_def Let_def)

lemma fuseBinaries_calls:
  "\<exists>rest. calls (trace (snd (fuseBinaries env outputFile amd64Filename arm64Filename s)))
     = calls (trace s)
       @ EvRunCommand (BinDirectory (options s)) ''lipo''
           [''-create'', ''-output'', outputFile, amd64Filename, arm64Filename] # rest"
  by (simp add: fuseBinaries_def fs_DeleteFile_def Let_def split_beta split: option.splits)

lemma compileUniversal_eq:
  fixes env s
  defines "base \<equiv> builder_OutputFilename env (options s)"
  defines "amd64 \<equiv> (options s)\<lparr>Arch := ''amd64'', OutputFile := base @ ''-amd64'',
                                   CleanBinDirectory := False\<rparr>"
  assumes c1: "builder_CompileProject env amd64 (files s) = (e1, cb1, f1)"
  defines "arm64 \<equiv> amd64\<lparr>CompiledBinary := cb1, Arch := ''arm64'',
                              OutputFile := base @ ''-arm64'', CleanBinDirectory := False\<rparr>"
  assumes c2: "builder_CompileProject env arm64 f1 = (e2, cb2, f2)"
  shows "\<exists>s3 s6.
            options s3 = amd64\<lparr>CompiledBinary := cb1\<rparr> \<and> files s3 = f1
          \<and> calls (trace s3) = calls (trace s) @ [EvCompileProject amd64]
          \<and> options s6 = arm64\<lparr>CompiledBinary := cb2\<rparr> \<and> files s6 = f2
          \<and> calls (trace s6) = calls (trace s) @ [EvCompileProject amd64, EvCompileProject arm64]
          \<and> compileUniversal env s =
               (case e1 of
                  Some e \<Rightarrow> (Returns (Some e), s3)
                | None \<Rightarrow>
                    (case e2 of
                       Some e \<Rightarrow> (Returns (Some e), s6)
                     | None \<Rightarrow> fuseBinaries env base (base @ ''-amd64'') (base @ ''-arm64'') s6))"
proof -
  define s2 where "s2 =
     printlnVerbose fmt_BuildingAMD64
       [filepath_Join env (BinDirectory (options s)) (base @ ''-amd64'')] (s\<lparr>options := amd64\<rparr>)"
  define s3 where "s3 =
     (emit (EvCompileProject amd64) s2)
       \<lparr>files := f1, options := amd64\<lparr>CompiledBinary := cb1\<rparr>\<rparr>"
  define s5 where "s5 =
     printlnVerbose fmt_BuildingARM64
       [filepath_Join env (BinDirectory (options s)) (base @ ''-arm64'')] (s3\<lparr>options := arm64\<rparr>)"
  define s6 where "s6 =
     (emit (EvCompileProject arm64) s5)
       \<lparr>files := f2, options := arm64\<lparr>CompiledBinary := cb2\<rparr>\<rparr>"
  have o3: "options s3 = amd64\<lparr>CompiledBinary := cb1\<rparr>" "files s3 = f1"
    "calls (trace s3) = calls (trace s) @ [EvCompileProject amd64]"
    by (simp_all add: s3_def s2_def)
  have o6: "options s6 = arm64\<lparr>CompiledBinary := cb2\<rparr>" "files s6 = f2"
    "calls (trace s6) = calls (trace s) @ [EvCompileProject amd64, EvCompileProject arm64]"
    by (simp_all add: s6_def s5_def s3_def s2_def)
  have "compileUniversal env s =
          (case e1 of
             Some e \<Rightarrow> (Returns (Some e), s3)
           | None \<Rightarrow>
               (case e2 of
                  Some e \<Rightarrow> (Returns (Some e), s6)
                | None \<Rightarrow> fuseBinaries env base (base @ ''-amd64'') (base @ ''-arm64'') s6))"
    using c1 c2
    by (cases e1; cases e2)
      (simp_all add: compileUniversal_def Let_def CompileProject_def
         s2_def s3_def s5_def s6_def amd64_def arm64_def base_def)
  with o3 o6 show ?thesis by blast
qed

lemma compileApplication_universal:
  assumes "Platform (options s) = ''darwin''" and "Arch (options s) = ''universal''"
  shows "execBuildApplication env s =
           orReturn (compileUniversal env (emit (EvLog fmt_CompilingApplication []) s))
             (packageAndReturn env)"
  using assms by (simp add: execBuildApplication_def compileApplication_def Let_def)

lemma fuseBinaries_lipo_fails:
  assumes "shell_RunCommand env (BinDirectory (options s)) ''lipo''
             [''-create'', ''-output'', outputFile, amd64Filename, arm64Filename] (files s)
           = ((stdout, stderr, Some e), files')"
  shows "\<exists>s'. fuseBinaries env outputFile amd64Filename arm64Filename s
                 = (Returns (Some (Error (Error_text e @ '' - '' @ stderr))), s')
             \<and> options s' = options s \<and> files s' = files'
             \<and> calls (trace s') = calls (trace s)
                  @ [EvRunCommand (BinDirectory (options s)) ''lipo''
                       [''-create'', ''-output'', outputFile, amd64Filename, arm64Filename]]"
  using assms by (simp add: fuseBinaries_def Let_def)

lemma fuseBinaries_lipo_ok:
  assumes "shell_RunCommand env (BinDirectory (options s)) ''lipo''
             [''-create'', ''-output'', outputFile, amd64Filename, arm64Filename] (files s)
           = ((stdout, stderr, None), files')"
    and "fst (fuseBinaries env outputFile amd64Filename arm64Filename s) = Returns None"
  shows "files (snd (fuseBinaries env outputFile amd64Filename arm64Filename s))
           = files' - {filepath_Join env (BinDirectory (options s)) amd64Filename}
                    - {filepath_Join env (BinDirectory (options s)) arm64Filename}"
    and "calls (trace (snd (fuseBinaries env outputFile amd64Filename arm64Filename s)))
           = calls (trace s)
            @ [EvRunCommand (BinDirectory (options s)) ''lipo''
                 [''-create'', ''-output'', outputFile, amd64Filename, arm64Filename],
               EvDeleteFile (filepath_Join env (BinDirectory (options s)) amd64Filename),
               EvDeleteFile (filepath_Join env (BinDirectory (options s)) arm64Filename)]"
    and "\<exists>p. ProjectData (options s) = Some p
              \<and> options (snd (fuseBinaries env outputFile amd64Filename arm64Filename s))
                  = (options s)
                   \<lparr>ProjectData := Some (p\<lparr>OutputFilename := outputFile\<rparr>),
                    CompiledBinary := filepath_Join env (BinDirectory (options s)) outputFile\<rparr>"
  using assms
  by (simp_all add: fuseBinaries_def fs_DeleteFile_def Let_def split: option.splits if_splits)

lemma fuseBinaries_options:
  "\<exists>pd cb. options (snd (fuseBinaries env outputFile amd64Filename arm64Filename s))
     = (options s)\<lparr>ProjectData := pd, CompiledBinary := cb\<rparr>"
proof -
  let ?bin = "BinDirectory (options s)"
  have same: "options s = (options s)\<lparr>ProjectData := ProjectData (options s),
      CompiledBinary := CompiledBinary (options s)\<rparr>" by simp
  obtain out errout err f3 where run: "shell_RunCommand env ?bin ''lipo''
      [''-create'', ''-output'', outputFile, amd64Filename, arm64Filename] (files s)
        = ((out, errout, err), f3)"
    by (metis prod.exhaust)
  show ?thesis
  proof (cases err)
    case (Some e)
    with run have "options (snd (fuseBinaries env outputFile amd64Filename arm64Filename s)) = options s"
      by (simp add: fuseBinaries_def Let_def)
    with same show ?thesis by metis
  next
    case None
    note lipo = this
    show ?thesis
    proof (cases "fs_DeleteFile_fails env (filepath_Join env ?bin amd64Filename) f3")
      case (Some e)
      with run lipo
      have "options (snd (fuseBinaries env outputFile amd64Filename arm64Filename s)) = options s"
        by (simp add: fuseBinaries_def fs_DeleteFile_def Let_def)
      with same show ?thesis by metis
    next
      case None
      note d1 = this
      show ?thesis
      proof (cases "fs_DeleteFile_fails env (filepath_Join env ?bin arm64Filename)
                      (f3 - {filepath_Join env ?bin amd64Filename})")
        case (Some e)
        with run lipo d1
        have "options (snd (fuseBinaries env outputFile amd64Filename arm64Filename s)) = options s"
          by (simp add: fuseBinaries_def fs_DeleteFile_def Let_def)
        with same show ?thesis by metis
      next
        case None
        note d2 = this
        show ?thesis
        proof (cases "ProjectData (options s)")
          case None
          with run lipo d1 d2
          have "options (snd (fuseBinaries env outputFile amd64Filename arm64Filename s)) = options s"
            by (simp add: fuseBinaries_def fs_DeleteFile_def Let_def)
          with same show ?thesis by metis
        next
          case (Some p)
          with run lipo d1 d2
          have "options (snd (fuseBinaries env outputFile amd64Filename arm64Filename s))
                  = (options s)\<lparr>ProjectData := Some (p\<lparr>OutputFilename := outputFile\<rparr>),
                       CompiledBinary := filepath_Join env ?bin outputFile\<rparr>"
            by (simp add: fuseBinaries_def fs_DeleteFile_def Let_def)
          then show ?thesis by metis
        qed
      qed
    qed
  qed
qed

lemma fuseBinaries_Arch [simp]:
  "Arch (options (snd (fuseBinaries env outputFile amd64Filename arm64Filename s))) = Arch (options s)"
  "OutputFile (options (snd (fuseBinaries env outputFile amd64Filename arm64Filename s)))
     = OutputFile (options s)"
  "CleanBinDirectory (options (snd (fuseBinaries env outputFile amd64Filename arm64Filename s)))
     = CleanBinDirectory (options s)"
  "UserTags (options (snd (fuseBinaries env outputFile amd64Filename arm64Filename s)))
     = UserTags (options s)"
  "Platform (options (snd (fuseBinaries env outputFile amd64Filename arm64Filename s)))
     = Platform (options s)"
  "Pack (options (snd (fuseBinaries env outputFile amd64Filename arm64Filename s)))
     = Pack (options s)"
  using fuseBinaries_options [of env outputFile amd64Filename arm64Filename s] by auto

lemma fuseBinaries_trace [simp]:
  "commands (trace (snd (fuseBinaries env outputFile amd64Filename arm64Filename s)))
     = commands (trace s) @ [(BinDirectory (options s), ''lipo'',
          [''-create'', ''-output'', outputFile, amd64Filename, arm64Filename])]"
  "builderLife (trace (snd (fuseBinaries env outputFile amd64Filename arm64Filename s)))
     = builderLife (trace s)"
  by (simp_all add: fuseBinaries_def fs_DeleteFile_def Let_def split_beta split: option.splits)

lemma fuseBinaries_not_Exits [simp]:
  "fst (fuseBinaries env outputFile amd64Filename arm64Filename s) \<noteq> Exits"
  by (simp add: fuseBinaries_def fs_DeleteFile_def Let_def split_beta split: option.splits)

lemma packageAndReturn_path:
  "fst (packageAndReturn env s) = Returns (path, None) \<Longrightarrow>
   path = CompiledBinary (options (snd (packageAndReturn env s)))"
proof (cases "Pack (options s)")
  case False
  assume "fst (packageAndReturn env s) = Returns (path, None)"
  with False show ?thesis
    by (simp add: packageAndReturn_def Let_def split: if_splits)
next
  case True
  assume r: "fst (packageAndReturn env s) = Returns (path, None)"
  show ?thesis
  proof (cases "Platform (options s) = ''windows''")
    case True
    with r show ?thesis
      by (simp add: packageAndReturn_def Let_def split: if_splits)
  next
    case False
    with \<open>Pack (options s)\<close> r show ?thesis
      by (cases rule: call_packageProject_cases [where env = env and platform = "GOOS env"
            and s = "emit (EvLog fmt_PackagingApplication []) (emit (EvLog fmt_Done []) s)"])
        (simp_all add: packageAndReturn_def Let_def split: if_splits)
  qed
qed

lemma fuseBinaries_deletes_first:
  assumes "shell_RunCommand env (BinDirectory (options s)) ''lipo''
             [''-create'', ''-output'', outputFile, amd64Filename, arm64Filename] (files s)
           = ((stdout, stderr, None), files')"
  shows "\<exists>rest. calls (trace (snd (fuseBinaries env outputFile amd64Filename arm64Filename s)))
     = calls (trace s)
       @ [EvRunCommand (BinDirectory (options s)) ''lipo''
            [''-create'', ''-output'', outputFile, amd64Filename, arm64Filename],
          EvDeleteFile (filepath_Join env (BinDirectory (options s)) amd64Filename)] @ rest"
  using assms
  by (simp add: fuseBinaries_def fs_DeleteFile_def Let_def split_beta split: option.splits)

text \<open>The universal compile of a state in which the platform is darwin and the architecture universal.\<close>

lemma execBuildApplication_universal_eq:
  fixes env s
  defines "base \<equiv> builder_OutputFilename env (options s)"
  defines "amd64 \<equiv> (options s)\<lparr>Arch := ''amd64'', OutputFile := base @ ''-amd64'',
                                   CleanBinDirectory := False\<rparr>"
  assumes universal: "Platform (options s) = ''darwin''" "Arch (options s) = ''universal''"
    and c1: "builder_CompileProject env amd64 (files s) = (e1, cb1, f1)"
  defines "arm64 \<equiv> amd64\<lparr>CompiledBinary := cb1, Arch := ''arm64'',
                              OutputFile := base @ ''-arm64'', CleanBinDirectory := False\<rparr>"
  assumes c2: "builder_CompileProject env arm64 f1 = (e2, cb2, f2)"
  shows "\<exists>s3 s6.
            options s3 = amd64\<lparr>CompiledBinary := cb1\<rparr> \<and> files s3 = f1
          \<and> calls (trace s3) = calls (trace s) @ [EvCompileProject amd64]
          \<and> options s6 = arm64\<lparr>CompiledBinary := cb2\<rparr> \<and> files s6 = f2
          \<and> calls (trace s6) = calls (trace s) @ [EvCompileProject amd64, EvCompileProject arm64]
          \<and> execBuildApplication env s =
               (case e1 of
                  Some e \<Rightarrow> (Returns ([], Some e), s3)
                | None \<Rightarrow>
                    (case e2 of
                       Some e \<Rightarrow> (Returns ([], Some e), s6)
                     | None \<Rightarrow>
                         orReturn (fuseBinaries env base (base @ ''-amd64'') (base @ ''-arm64'') s6)
                           (packageAndReturn env)))"
proof -
  let ?s1 = "emit (EvLog fmt_CompilingApplication []) s"
  let ?amd64 = "(options ?s1)\<lparr>Arch := ''amd64'',
      OutputFile := builder_OutputFilename env (options ?s1) @ ''-amd64'', CleanBinDirectory := False\<rparr>"
  let ?arm64 = "?amd64\<lparr>CompiledBinary := cb1, Arch := ''arm64'',
      OutputFile := builder_OutputFilename env (options ?s1) @ ''-arm64'', CleanBinDirectory := False\<rparr>"
  have same: "?amd64 = amd64" "?arm64 = arm64" "builder_OutputFilename env (options ?s1) = base"
    "files ?s1 = files s" "calls (trace ?s1) = calls (trace s)"
    by (simp_all add: amd64_def arm64_def base_def)
  have c1': "builder_CompileProject env ?amd64 (files ?s1) = (e1, cb1, f1)"
    using c1 by (simp add: amd64_def base_def)
  have c2': "builder_CompileProject env ?arm64 f1 = (e2, cb2, f2)"
    using c2 by (simp add: amd64_def arm64_def base_def)
  from compileUniversal_eq [OF c1' c2']
  have "\<exists>s3 s6.
            options s3 = amd64\<lparr>CompiledBinary := cb1\<rparr> \<and> files s3 = f1
          \<and> calls (trace s3) = calls (trace s) @ [EvCompileProject amd64]
          \<and> options s6 = arm64\<lparr>CompiledBinary := cb2\<rparr> \<and> files s6 = f2
          \<and> calls (trace s6) = calls (trace s) @ [EvCompileProject amd64, EvCompileProject arm64]
          \<and> compileUniversal env ?s1 =
          (case e1 of
             Some e \<Rightarrow> (Returns (Some e), s3)
           | None \<Rightarrow>
               (case e2 of
                  Some e \<Rightarrow> (Returns (Some e), s6)
                | None \<Rightarrow> fuseBinaries env base (base @ ''-amd64'') (base @ ''-arm64'') s6))"
    by (simp add: amd64_def arm64_def base_def cong: option.case_cong)
  then obtain s3 s6 where
    "options s3 = amd64\<lparr>CompiledBinary := cb1\<rparr>" "files s3 = f1"
    "calls (trace s3) = calls (trace s) @ [EvCompileProject amd64]"
    "options s6 = arm64\<lparr>CompiledBinary := cb2\<rparr>" "files s6 = f2"
    "calls (trace s6) = calls (trace s) @ [EvCompileProject amd64, EvCompileProject arm64]"
    and cu: "compileUniversal env ?s1 =
          (case e1 of
             Some e \<Rightarrow> (Returns (Some e), s3)
           | None \<Rightarrow>
               (case e2 of
                  Some e \<Rightarrow> (Returns (Some e), s6)
                | None \<Rightarrow> fuseBinaries env base (base @ ''-amd64'') (base @ ''-arm64'') s6))"
    by blast
  moreover have "execBuildApplication env s =
               (case e1 of
                  Some e \<Rightarrow> (Returns ([], Some e), s3)
                | None \<Rightarrow>
                    (case e2 of
                       Some e \<Rightarrow> (Returns ([], Some e), s6)
                     | None \<Rightarrow>
                         orReturn (fuseBinaries env base (base @ ''-amd64'') (base @ ''-arm64'') s6)
                           (packageAndReturn env)))"
    unfolding compileApplication_universal [OF universal] cu
    by (cases e1; cases e2) simp_all
  ultimately show ?thesis by blast
qed

lemma fuseBinaries_succeeds:
  assumes "shell_RunCommand env (BinDirectory (options s)) ''lipo''
             [''-create'', ''-output'', outputFile, amd64Filename, arm64Filename] (files s)
           = ((stdout, stderr, None), files')"
    and "fs_DeleteFile_fails env (filepath_Join env (BinDirectory (options s)) amd64Filename) files'
           = None"
    and "fs_DeleteFile_fails env (filepath_Join env (BinDirectory (options s)) arm64Filename)
           (files' - {filepath_Join env (BinDirectory (options s)) amd64Filename}) = None"
    and "ProjectData (options s) = Some p"
  shows "fst (fuseBinaries env outputFile amd64Filename arm64Filename s) = Returns None"
  using assms by (simp add: fuseBinaries_def fs_DeleteFile_def Let_def)

text \<open>
  The universal compile succeeds when the two compiles, the fusion and the two deletions
  succeed and no packaging is asked for.
\<close>

lemma execBuildApplication_universal_succeeds:
  fixes env s
  defines "base \<equiv> builder_OutputFilename env (options s)"
  defines "amd64 \<equiv> (options s)\<lparr>Arch := ''amd64'', OutputFile := base @ ''-amd64'',
                                   CleanBinDirectory := False\<rparr>"
  assumes universal: "Platform (options s) = ''darwin''" "Arch (options s) = ''universal''"
    and c1: "builder_CompileProject env amd64 (files s) = (None, cb1, f1)"
  defines "arm64 \<equiv> amd64\<lparr>CompiledBinary := cb1, Arch := ''arm64'',
                              OutputFile := base @ ''-arm64'', CleanBinDirectory := False\<rparr>"
  assumes c2: "builder_CompileProject env arm64 f1 = (None, cb2, f2)"
    and run: "shell_RunCommand env (BinDirectory (options s)) ''lipo''
                  [''-create'', ''-output'', base, base @ ''-amd64'', base @ ''-arm64''] f2
                = ((stdout, stderr, None), f3)"
    and d1: "fs_DeleteFile_fails env
               (filepath_Join env (BinDirectory (options s)) (base @ ''-amd64'')) f3 = None"
    and d2: "fs_DeleteFile_fails env
               (filepath_Join env (BinDirectory (options s)) (base @ ''-arm64''))
               (f3 - {filepath_Join env (BinDirectory (options s)) (base @ ''-amd64'')}) = None"
    and pd: "ProjectData (options s) = Some p"
    and pack: "\<not> Pack (options s)"
  shows "fst (execBuildApplication env s)
           = Returns (filepath_Join env (BinDirectory (options s)) base, None)"
proof -
  note eq = execBuildApplication_universal_eq
    [OF universal c1 [unfolded amd64_def base_def] c2 [unfolded arm64_def amd64_def base_def],
     folded base_def, folded amd64_def, folded arm64_def]
  then obtain s6 where
    o6: "options s6 = arm64\<lparr>CompiledBinary := cb2\<rparr>" "files s6 = f2"
    and ex: "execBuildApplication env s =
               orReturn (fuseBinaries env base (base @ ''-amd64'') (base @ ''-arm64'') s6)
                 (packageAndReturn env)"
    by auto
  have bin: "BinDirectory (options s6) = BinDirectory (options s)"
    and pack6: "Pack (options s6) = Pack (options s)"
    and pd6: "ProjectData (options s6) = Some p"
    using o6(1) pd by (simp_all add: arm64_def amd64_def)
  let ?fuse = "fuseBinaries env base (base @ ''-amd64'') (base @ ''-arm64'') s6"
  have run6: "shell_RunCommand env (BinDirectory (options s6)) ''lipo''
                  [''-create'', ''-output'', base, base @ ''-amd64'', base @ ''-arm64''] (files s6)
                = ((stdout, stderr, None), f3)"
    using run bin o6(2) by simp
  have ok: "fst ?fuse = Returns None"
    using fuseBinaries_succeeds [OF run6 _ _ pd6] d1 d2 bin by simp
  obtain s7 where fuse: "?fuse = (Returns None, s7)"
    using ok by (cases ?fuse) simp
  note lo = fuseBinaries_lipo_ok [OF run6 ok, unfolded fuse bin]
  from lo(3) pd6 have o7: "CompiledBinary (options s7) = filepath_Join env (BinDirectory (options s)) base"
    "Pack (options s7) = Pack (options s)"
    using pack6 by auto
  have "execBuildApplication env s = packageAndReturn env s7"
    using ex fuse by simp
  with packageAndReturn_no_Pack [of s7 env] o7 pack show ?thesis
    by simp
qed

lemma execBuildApplication_lipo_fails:
  fixes env s
  defines "base \<equiv> builder_OutputFilename env (options s)"
  defines "amd64 \<equiv> (options s)\<lparr>Arch := ''amd64'', OutputFile := base @ ''-amd64'',
                                   CleanBinDirectory := False\<rparr>"
  assumes universal: "Platform (options s) = ''darwin''" "Arch (options s) = ''universal''"
    and c1: "builder_CompileProject env amd64 (files s) = (None, cb1, f1)"
  defines "arm64 \<equiv> amd64\<lparr>CompiledBinary := cb1, Arch := ''arm64'',
                              OutputFile := base @ ''-arm64'', CleanBinDirectory := False\<rparr>"
  assumes c2: "builder_CompileProject env arm64 f1 = (None, cb2, f2)"
    and run: "shell_RunCommand env (BinDirectory (options s)) ''lipo''
                  [''-create'', ''-output'', base, base @ ''-amd64'', base @ ''-arm64''] f2
                = ((stdout, stderr, Some e), f3)"
  shows "\<exists>s7. execBuildApplication env s
                 = (Returns ([], Some (Error (Error_text e @ '' - '' @ stderr))), s7)
             \<and> options s7 = arm64\<lparr>CompiledBinary := cb2\<rparr> \<and> files s7 = f3
             \<and> calls (trace s7) = calls (trace s)
                  @ [EvCompileProject amd64, EvCompileProject arm64,
                     EvRunCommand (BinDirectory (options s)) ''lipo''
                       [''-create'', ''-output'', base, base @ ''-amd64'', base @ ''-arm64'']]"
proof -
  note eq = execBuildApplication_universal_eq
    [OF universal c1 [unfolded amd64_def base_def] c2 [unfolded arm64_def amd64_def base_def],
     folded base_def, folded amd64_def, folded arm64_def]
  then obtain s6 where
    o6: "options s6 = arm64\<lparr>CompiledBinary := cb2\<rparr>" "files s6 = f2"
      "calls (trace s6) = calls (trace s) @ [EvCompileProject amd64, EvCompileProject arm64]"
    and ex: "execBuildApplication env s =
               orReturn (fuseBinaries env base (base @ ''-amd64'') (base @ ''-arm64'') s6)
                 (packageAndReturn env)"
    by auto
  have bin: "BinDirectory (options s6) = BinDirectory (options s)"
    using o6(1) by (simp add: arm64_def amd64_def)
  have run6: "shell_RunCommand env (BinDirectory (options s6)) ''lipo''
                  [''-create'', ''-output'', base, base @ ''-amd64'', base @ ''-arm64''] (files s6)
                = ((stdout, stderr, Some e), f3)"
    using run bin o6(2) by simp
  from fuseBinaries_lipo_fails [OF run6] obtain s7 where
    "fuseBinaries env base (base @ ''-amd64'') (base @ ''-arm64'') s6
       = (Returns (Some (Error (Error_text e @ '' - '' @ stderr))), s7)"
    "options s7 = options s6" "files s7 = f3"
    "calls (trace s7) = calls (trace s6)
       @ [EvRunCommand (BinDirectory (options s6)) ''lipo''
            [''-create'', ''-output'', base, base @ ''-amd64'', base @ ''-arm64'']]"
    by blast
  with ex o6 bin show ?thesis by simp
qed

section \<open>Claims about the universal binary\<close>

text \<open>
  Claim C8. For platform darwin and architecture universal, the compile stage computes the
  base output filename from the options as they are at entry, then calls the compiler with
  the architecture set to amd64, the output file set to the base name followed by
  \<^verbatim>\<open>-amd64\<close> and the clean-bin-directory flag off; if that fails it returns the error and
  calls nothing else. Otherwise it calls the compiler with arm64, the suffix \<^verbatim>\<open>-arm64\<close>
  and the flag off; if that fails it returns the error and does not start the fusion
  tool. Only after both compiles does it start \<^verbatim>\<open>lipo -create -output\<close> with the base name
  and the two suffixed names, in the bin directory.
\<close>

theorem execBuildApplication_universal_order:
  fixes env s
  defines "base \<equiv> builder_OutputFilename env (options s)"
  defines "amd64 \<equiv> (options s)\<lparr>Arch := ''amd64'', OutputFile := base @ ''-amd64'',
                                   CleanBinDirectory := False\<rparr>"
  assumes universal: "Platform (options s) = ''darwin''" "Arch (options s) = ''universal''"
    and c1: "builder_CompileProject env amd64 (files s) = (e1, cb1, f1)"
  defines "arm64 \<equiv> amd64\<lparr>CompiledBinary := cb1, Arch := ''arm64'',
                              OutputFile := base @ ''-arm64'', CleanBinDirectory := False\<rparr>"
  assumes c2: "builder_CompileProject env arm64 f1 = (e2, cb2, f2)"
  defines "lipo \<equiv> EvRunCommand (BinDirectory (options s)) ''lipo''
                      [''-create'', ''-output'', base, base @ ''-amd64'', base @ ''-arm64'']"
  shows "(e1 \<noteq> None \<longrightarrow>
            calls (trace (snd (execBuildApplication env s)))
              = calls (trace s) @ [EvCompileProject amd64]
          \<and> fst (execBuildApplication env s) = Returns ([], e1))
       \<and> (e1 = None \<and> e2 \<noteq> None \<longrightarrow>
            calls (trace (snd (execBuildApplication env s)))
              = calls (trace s) @ [EvCompileProject amd64, EvCompileProject arm64]
          \<and> fst (execBuildApplication env s) = Returns ([], e2))
       \<and> (e1 = None \<and> e2 = None \<longrightarrow>
            (\<exists>rest. calls (trace (snd (execBuildApplication env s)))
              = calls (trace s) @ [EvCompileProject amd64, EvCompileProject arm64, lipo] @ rest))"
proof -
  note eq = execBuildApplication_universal_eq
    [OF universal c1 [unfolded amd64_def base_def] c2 [unfolded arm64_def amd64_def base_def],
     folded base_def, folded amd64_def, folded arm64_def]
  then obtain s3 s6 where
    o3: "calls (trace s3) = calls (trace s) @ [EvCompileProject amd64]"
    and o6: "options s6 = arm64\<lparr>CompiledBinary := cb2\<rparr>"
      "calls (trace s6) = calls (trace s) @ [EvCompileProject amd64, EvCompileProject arm64]"
    and ex: "execBuildApplication env s =
               (case e1 of
                  Some e \<Rightarrow> (Returns ([], Some e), s3)
                | None \<Rightarrow>
                    (case e2 of
                       Some e \<Rightarrow> (Returns ([], Some e), s6)
                     | None \<Rightarrow>
                         orReturn (fuseBinaries env base (base @ ''-amd64'') (base @ ''-arm64'') s6)
                           (packageAndReturn env)))"
    by blast
  have bin: "BinDirectory (options s6) = BinDirectory (options s)"
    using o6(1) by (simp add: arm64_def amd64_def)
  show ?thesis
  proof (intro conjI impI)
    assume "e1 \<noteq> None"
    then show "calls (trace (snd (execBuildApplication env s))) = calls (trace s) @ [EvCompileProject amd64]"
      and "fst (execBuildApplication env s) = Returns ([], e1)"
      using ex o3 by auto
  next
    assume "e1 = None \<and> e2 \<noteq> None"
    then show "calls (trace (snd (execBuildApplication env s)))
          = calls (trace s) @ [EvCompileProject amd64, EvCompileProject arm64]"
      and "fst (execBuildApplication env s) = Returns ([], e2)"
      using ex o6 by auto
  next
    assume ok: "e1 = None \<and> e2 = None"
    obtain r s7 where fuse: "fuseBinaries env base (base @ ''-amd64'') (base @ ''-arm64'') s6 = (r, s7)"
      by (cases "fuseBinaries env base (base @ ''-amd64'') (base @ ''-arm64'') s6")
    from fuseBinaries_calls [of env base "base @ ''-amd64''" "base @ ''-arm64''" s6] fuse bin o6
    obtain rest where c7: "calls (trace s7)
        = calls (trace s) @ [EvCompileProject amd64, EvCompileProject arm64, lipo] @ rest"
      by (auto simp: lipo_def)
    from packageAndReturn_frame [of env s7]
    obtain evs where "trace (snd (packageAndReturn env s7)) = trace s7 @ evs"
      by blast
    then have c8: "calls (trace (snd (packageAndReturn env s7)))
        = calls (trace s) @ [EvCompileProject amd64, EvCompileProject arm64, lipo] @ rest @ calls evs"
      using c7 by simp
    have "snd (execBuildApplication env s) = s7
        \<or> snd (execBuildApplication env s) = snd (packageAndReturn env s7)"
      using ex ok fuse by (cases r) (auto simp: orReturn_def split: option.splits)
    with c7 c8 show "\<exists>rest. calls (trace (snd (execBuildApplication env s)))
              = calls (trace s) @ [EvCompileProject amd64, EvCompileProject arm64, lipo] @ rest"
      by auto
  qed
qed


theorem execBuildApplication_universal_order_witness:
  "\<exists>rest. calls (trace (snd (execBuildApplication env_ok demo_state_universal)))
      = [EvCompileProject (demo_options\<lparr>BinDirectory := ''/work/build/bin'', Arch := ''amd64'',
             OutputFile := ''app-amd64'', CleanBinDirectory := False\<rparr>),
         EvCompileProject (demo_options\<lparr>BinDirectory := ''/work/build/bin'',
             CompiledBinary := ''/work/build/bin/app-amd64'', Arch := ''arm64'',
             OutputFile := ''app-arm64'', CleanBinDirectory := False\<rparr>),
         EvRunCommand ''/work/build/bin'' ''lipo''
           [''-create'', ''-output'', ''app'', ''app-amd64'', ''app-arm64'']] @ rest"
  using execBuildApplication_universal_order [where env = env_ok and s = demo_state_universal
      and ?e1.0 = None and ?cb1.0 = "''/work/build/bin/app-amd64''"
      and ?f1.0 = "{''/work/build/bin/app-amd64''}"
      and ?e2.0 = None and ?cb2.0 = "''/work/build/bin/app-arm64''"
      and ?f2.0 = "{''/work/build/bin/app-arm64'', ''/work/build/bin/app-amd64''}"]
  by (simp add: env_ok_def demo_state_universal_def demo_state_def demo_options_def)



section \<open>Claims about the temporary binaries\<close>

text \<open>The fusion step, case by case: what it returns, the files and the calls it leaves.\<close>

lemma fuseBinaries_first_delete_fails:
  assumes "shell_RunCommand env (BinDirectory (options s)) ''lipo''
             [''-create'', ''-output'', outputFile, amd64Filename, arm64Filename] (files s)
           = ((stdout, stderr, None), files')"
    and "fs_DeleteFile_fails env (filepath_Join env (BinDirectory (options s)) amd64Filename) files'
           = Some e"
  shows "\<exists>s'. fuseBinaries env outputFile amd64Filename arm64Filename s = (Returns (Some e), s')
             \<and> options s' = options s \<and> files s' = files'
             \<and> calls (trace s') = calls (trace s)
                  @ [EvRunCommand (BinDirectory (options s)) ''lipo''
                       [''-create'', ''-output'', outputFile, amd64Filename, arm64Filename],
                     EvDeleteFile (filepath_Join env (BinDirectory (options s)) amd64Filename)]"
  using assms by (simp add: fuseBinaries_def fs_DeleteFile_def Let_def)

lemma fuseBinaries_second_delete_fails:
  assumes "shell_RunCommand env (BinDirectory (options s)) ''lipo''
             [''-create'', ''-output'', outputFile, amd64Filename, arm64Filename] (files s)
           = ((stdout, stderr, None), files')"
    and "fs_DeleteFile_fails env (filepath_Join env (BinDirectory (options s)) amd64Filename) files'
           = None"
    and "fs_DeleteFile_fails env (filepath_Join env (BinDirectory (options s)) arm64Filename)
           (files' - {filepath_Join env (BinDirectory (options s)) amd64Filename}) = Some e"
  shows "\<exists>s'. fuseBinaries env outputFile amd64Filename arm64Filename s = (Returns (Some e), s')
             \<and> options s' = options s
             \<and> files s' = files' - {filepath_Join env (BinDirectory (options s)) amd64Filename}
             \<and> calls (trace s') = calls (trace s)
                  @ [EvRunCommand (BinDirectory (options s)) ''lipo''
                       [''-create'', ''-output'', outputFile, amd64Filename, arm64Filename],
                     EvDeleteFile (filepath_Join env (BinDirectory (options s)) amd64Filename),
                     EvDeleteFile (filepath_Join env (BinDirectory (options s)) arm64Filename)]"
  using assms by (simp add: fuseBinaries_def fs_DeleteFile_def Let_def)

lemma fuseBinaries_all_ok:
  assumes "shell_RunCommand env (BinDirectory (options s)) ''lipo''
             [''-create'', ''-output'', outputFile, amd64Filename, arm64Filename] (files s)
           = ((stdout, stderr, None), files')"
    and "fs_DeleteFile_fails env (filepath_Join env (BinDirectory (options s)) amd64Filename) files'
           = None"
    and "fs_DeleteFile_fails env (filepath_Join env (BinDirectory (options s)) arm64Filename)
           (files' - {filepath_Join env (BinDirectory (options s)) amd64Filename}) = None"
  shows "\<exists>r s'. fuseBinaries env outputFile amd64Filename arm64Filename s = (r, s')
             \<and> (case ProjectData (options s) of
                   None \<Rightarrow> r = Panics
                 | Some p \<Rightarrow> r = Returns None
                     \<and> options s' = (options s)
                         \<lparr>ProjectData := Some (p\<lparr>OutputFilename := outputFile\<rparr>),
                          CompiledBinary := filepath_Join env (BinDirectory (options s)) outputFile\<rparr>)
             \<and> files s' = files' - {filepath_Join env (BinDirectory (options s)) amd64Filename}
                                 - {filepath_Join env (BinDirectory (options s)) arm64Filename}
             \<and> calls (trace s') = calls (trace s)
                  @ [EvRunCommand (BinDirectory (options s)) ''lipo''
                       [''-create'', ''-output'', outputFile, amd64Filename, arm64Filename],
                     EvDeleteFile (filepath_Join env (BinDirectory (options s)) amd64Filename),
                     EvDeleteFile (filepath_Join env (BinDirectory (options s)) arm64Filename)]"
  using assms by (simp add: fuseBinaries_def fs_DeleteFile_def Let_def split: option.splits)

text \<open>
  Claim C2, as the code has it. In the universal build, after the two compiles have
  succeeded, the stage starts the fusion tool and then:
  \<^item> when the fusion tool fails, it returns an error with the empty path at once: it deletes
    nothing, and the files are as the tool left them;
  \<^item> when the fusion tool succeeds and the deletion of the amd64 binary fails, it returns
    that error with the empty path: the files are as the tool left them, and the deletion
    of the arm64 binary is not attempted;
  \<^item> when the deletion of the arm64 binary fails, it returns that error with the empty
    path, and only the amd64 binary has been taken away;
  \<^item> when the tool and both deletions succeed, the project data are set and no packaging
    is asked for, it returns the base name in the bin directory, and the files are those
    the tool left minus the two intermediate binaries.

  Whenever the stage returns successfully, the fusion tool and both deletions have
  succeeded and the deletions came right after the fusion, in this order; without
  packaging, the returned path is the base name in the bin directory, neither
  intermediate binary exists, and what the fusion tool wrote at the base name is still
  there.
\<close>

theorem execBuildApplication_temporaries:
  fixes env s
  defines "base \<equiv> builder_OutputFilename env (options s)"
  defines "amd64 \<equiv> (options s)\<lparr>Arch := ''amd64'', OutputFile := base @ ''-amd64'',
                                   CleanBinDirectory := False\<rparr>"
  assumes universal: "Platform (options s) = ''darwin''" "Arch (options s) = ''universal''"
    and c1: "builder_CompileProject env amd64 (files s) = (None, cb1, f1)"
  defines "arm64 \<equiv> amd64\<lparr>CompiledBinary := cb1, Arch := ''arm64'',
                              OutputFile := base @ ''-arm64'', CleanBinDirectory := False\<rparr>"
  assumes c2: "builder_CompileProject env arm64 f1 = (None, cb2, f2)"
  defines "lipo \<equiv> EvRunCommand (BinDirectory (options s)) ''lipo''
                      [''-create'', ''-output'', base, base @ ''-amd64'', base @ ''-arm64'']"
  assumes run: "shell_RunCommand env (BinDirectory (options s)) ''lipo''
                  [''-create'', ''-output'', base, base @ ''-amd64'', base @ ''-arm64''] f2
                = ((stdout, stderr, err), f3)"
  defines "p1 \<equiv> filepath_Join env (BinDirectory (options s)) (base @ ''-amd64'')"
  defines "p2 \<equiv> filepath_Join env (BinDirectory (options s)) (base @ ''-arm64'')"
  defines "fused \<equiv> filepath_Join env (BinDirectory (options s)) base"
  defines "d1 \<equiv> fs_DeleteFile_fails env p1 f3"
  defines "d2 \<equiv> fs_DeleteFile_fails env p2 (f3 - {p1})"
  defines "compiled \<equiv> calls (trace s) @ [EvCompileProject amd64, EvCompileProject arm64, lipo]"
  shows "(err \<noteq> None \<longrightarrow>
            (\<exists>e. fst (execBuildApplication env s) = Returns ([], Some e))
          \<and> files (snd (execBuildApplication env s)) = f3
          \<and> calls (trace (snd (execBuildApplication env s))) = compiled)
       \<and> (err = None \<and> d1 \<noteq> None \<longrightarrow>
            fst (execBuildApplication env s) = Returns ([], d1)
          \<and> files (snd (execBuildApplication env s)) = f3
          \<and> calls (trace (snd (execBuildApplication env s))) = compiled @ [EvDeleteFile p1])
       \<and> (err = None \<and> d1 = None \<and> d2 \<noteq> None \<longrightarrow>
            fst (execBuildApplication env s) = Returns ([], d2)
          \<and> files (snd (execBuildApplication env s)) = f3 - {p1}
          \<and> calls (trace (snd (execBuildApplication env s)))
              = compiled @ [EvDeleteFile p1, EvDeleteFile p2])
       \<and> (err = None \<and> d1 = None \<and> d2 = None \<and> ProjectData (options s) \<noteq> None
            \<and> \<not> Pack (options s) \<longrightarrow>
            fst (execBuildApplication env s) = Returns (fused, None)
          \<and> files (snd (execBuildApplication env s)) = f3 - {p1} - {p2}
          \<and> calls (trace (snd (execBuildApplication env s)))
              = compiled @ [EvDeleteFile p1, EvDeleteFile p2])
       \<and> (fst (execBuildApplication env s) = Returns (path, None) \<longrightarrow>
            err = None \<and> d1 = None \<and> d2 = None
          \<and> (\<exists>rest. calls (trace (snd (execBuildApplication env s)))
               = compiled @ [EvDeleteFile p1, EvDeleteFile p2] @ rest)
          \<and> (\<not> Pack (options s) \<longrightarrow>
                path = fused
              \<and> p1 \<notin> files (snd (execBuildApplication env s))
              \<and> p2 \<notin> files (snd (execBuildApplication env s))
              \<and> (fused \<in> f3 \<and> fused \<noteq> p1 \<and> fused \<noteq> p2
                   \<longrightarrow> fused \<in> files (snd (execBuildApplication env s)))))"
proof -
  note eq = execBuildApplication_universal_eq
    [OF universal c1 [unfolded amd64_def base_def] c2 [unfolded arm64_def amd64_def base_def],
     folded base_def, folded amd64_def, folded arm64_def]
  then obtain s6 where
    o6: "options s6 = arm64\<lparr>CompiledBinary := cb2\<rparr>" "files s6 = f2"
      "calls (trace s6) = calls (trace s) @ [EvCompileProject amd64, EvCompileProject arm64]"
    and ex: "execBuildApplication env s =
               orReturn (fuseBinaries env base (base @ ''-amd64'') (base @ ''-arm64'') s6)
                 (packageAndReturn env)"
    by auto
  have bin: "BinDirectory (options s6) = BinDirectory (options s)"
    and pack: "Pack (options s6) = Pack (options s)"
    and pd: "ProjectData (options s6) = ProjectData (options s)"
    using o6(1) by (simp_all add: arm64_def amd64_def)
  let ?fuse = "fuseBinaries env base (base @ ''-amd64'') (base @ ''-arm64'') s6"
  let ?X = "execBuildApplication env s"
  have run6: "shell_RunCommand env (BinDirectory (options s6)) ''lipo''
                  [''-create'', ''-output'', base, base @ ''-amd64'', base @ ''-arm64''] (files s6)
                = ((stdout, stderr, err), f3)"
    using run bin o6(2) by simp
  have failed: "(\<exists>e. fst ?X = Returns ([], Some e)) \<and> files (snd ?X) = f3
      \<and> calls (trace (snd ?X)) = compiled" if "err \<noteq> None"
  proof -
    from that obtain e where e: "err = Some e" by auto
    from fuseBinaries_lipo_fails [OF run6 [unfolded e]] obtain s7 where
      "?fuse = (Returns (Some (Error (Error_text e @ '' - '' @ stderr))), s7)"
      "files s7 = f3"
      "calls (trace s7) = calls (trace s6)
         @ [EvRunCommand (BinDirectory (options s6)) ''lipo''
              [''-create'', ''-output'', base, base @ ''-amd64'', base @ ''-arm64'']]"
      by blast
    with ex o6 bin show ?thesis by (simp add: compiled_def lipo_def)
  qed
  have first: "fst ?X = Returns ([], d1) \<and> files (snd ?X) = f3
      \<and> calls (trace (snd ?X)) = compiled @ [EvDeleteFile p1]" if "err = None" "d1 \<noteq> None"
  proof -
    from that obtain e where e: "d1 = Some e" by auto
    then have "fs_DeleteFile_fails env
        (filepath_Join env (BinDirectory (options s6)) (base @ ''-amd64'')) f3 = Some e"
      by (simp add: d1_def p1_def bin)
    from fuseBinaries_first_delete_fails [OF run6 [unfolded \<open>err = None\<close>] this] obtain s7 where
      "?fuse = (Returns (Some e), s7)" "files s7 = f3"
      "calls (trace s7) = calls (trace s6)
         @ [EvRunCommand (BinDirectory (options s6)) ''lipo''
              [''-create'', ''-output'', base, base @ ''-amd64'', base @ ''-arm64''],
            EvDeleteFile (filepath_Join env (BinDirectory (options s6)) (base @ ''-amd64''))]"
      by blast
    with ex o6 bin e show ?thesis by (simp add: compiled_def lipo_def p1_def)
  qed
  have second: "fst ?X = Returns ([], d2) \<and> files (snd ?X) = f3 - {p1}
      \<and> calls (trace (snd ?X)) = compiled @ [EvDeleteFile p1, EvDeleteFile p2]"
    if "err = None" "d1 = None" "d2 \<noteq> None"
  proof -
    from that obtain e where e: "d2 = Some e" by auto
    have a: "fs_DeleteFile_fails env
        (filepath_Join env (BinDirectory (options s6)) (base @ ''-amd64'')) f3 = None"
      using \<open>d1 = None\<close> by (simp add: d1_def p1_def bin)
    have b: "fs_DeleteFile_fails env
        (filepath_Join env (BinDirectory (options s6)) (base @ ''-arm64''))
        (f3 - {filepath_Join env (BinDirectory (options s6)) (base @ ''-amd64'')}) = Some e"
      using e by (simp add: d2_def p1_def p2_def bin)
    from fuseBinaries_second_delete_fails [OF run6 [unfolded \<open>err = None\<close>] a b] obtain s7 where
      "?fuse = (Returns (Some e), s7)"
      "files s7 = f3 - {filepath_Join env (BinDirectory (options s6)) (base @ ''-amd64'')}"
      "calls (trace s7) = calls (trace s6)
         @ [EvRunCommand (BinDirectory (options s6)) ''lipo''
              [''-create'', ''-output'', base, base @ ''-amd64'', base @ ''-arm64''],
            EvDeleteFile (filepath_Join env (BinDirectory (options s6)) (base @ ''-amd64'')),
            EvDeleteFile (filepath_Join env (BinDirectory (options s6)) (base @ ''-arm64''))]"
      by blast
    with ex o6 bin e show ?thesis by (simp add: compiled_def lipo_def p1_def p2_def)
  qed
  have all_ok: "\<exists>r s7. ?fuse = (r, s7)
        \<and> (case ProjectData (options s) of
              None \<Rightarrow> r = Panics
            | Some p \<Rightarrow> r = Returns None \<and> Pack (options s7) = Pack (options s)
                \<and> CompiledBinary (options s7) = fused)
        \<and> files s7 = f3 - {p1} - {p2}
        \<and> calls (trace s7) = compiled @ [EvDeleteFile p1, EvDeleteFile p2]"
    if "err = None" "d1 = None" "d2 = None"
  proof -
    have a: "fs_DeleteFile_fails env
        (filepath_Join env (BinDirectory (options s6)) (base @ ''-amd64'')) f3 = None"
      using \<open>d1 = None\<close> by (simp add: d1_def p1_def bin)
    have b: "fs_DeleteFile_fails env
        (filepath_Join env (BinDirectory (options s6)) (base @ ''-arm64''))
        (f3 - {filepath_Join env (BinDirectory (options s6)) (base @ ''-amd64'')}) = None"
      using \<open>d2 = None\<close> by (simp add: d2_def p1_def p2_def bin)
    from fuseBinaries_all_ok [OF run6 [unfolded \<open>err = None\<close>] a b] obtain r s7 where
      f: "?fuse = (r, s7)"
      and r: "case ProjectData (options s6) of
                None \<Rightarrow> r = Panics
              | Some p \<Rightarrow> r = Returns None
                  \<and> options s7 = (options s6)
                      \<lparr>ProjectData := Some (p\<lparr>OutputFilename := base\<rparr>),
                       CompiledBinary := filepath_Join env (BinDirectory (options s6)) base\<rparr>"
      and rest: "files s7 = f3 - {filepath_Join env (BinDirectory (options s6)) (base @ ''-amd64'')}
                                 - {filepath_Join env (BinDirectory (options s6)) (base @ ''-arm64'')}"
      "calls (trace s7) = calls (trace s6)
         @ [EvRunCommand (BinDirectory (options s6)) ''lipo''
              [''-create'', ''-output'', base, base @ ''-amd64'', base @ ''-arm64''],
            EvDeleteFile (filepath_Join env (BinDirectory (options s6)) (base @ ''-amd64'')),
            EvDeleteFile (filepath_Join env (BinDirectory (options s6)) (base @ ''-arm64''))]"
      by blast
    have "case ProjectData (options s) of
              None \<Rightarrow> r = Panics
            | Some p \<Rightarrow> r = Returns None \<and> Pack (options s7) = Pack (options s)
                \<and> CompiledBinary (options s7) = fused"
      using r pd pack bin by (simp add: fused_def split: option.splits)
    with f rest o6 bin show ?thesis
      by (simp add: compiled_def lipo_def p1_def p2_def)
  qed
  have finished: "fst ?X = Returns (fused, None) \<and> files (snd ?X) = f3 - {p1} - {p2}
        \<and> calls (trace (snd ?X)) = compiled @ [EvDeleteFile p1, EvDeleteFile p2]"
    if "err = None" "d1 = None" "d2 = None" "ProjectData (options s) \<noteq> None" "\<not> Pack (options s)"
  proof -
    from all_ok [OF that(1-3)] that(4) obtain s7 where
      f: "?fuse = (Returns None, s7)" and o7: "Pack (options s7) = Pack (options s)"
        "CompiledBinary (options s7) = fused"
      and rest: "files s7 = f3 - {p1} - {p2}"
        "calls (trace s7) = compiled @ [EvDeleteFile p1, EvDeleteFile p2]"
      by (auto split: option.splits)
    have "?X = packageAndReturn env s7" using ex f by simp
    with packageAndReturn_no_Pack [of s7 env] o7 rest that(5) show ?thesis by simp
  qed
  have success: "err = None \<and> d1 = None \<and> d2 = None
        \<and> (\<exists>rest. calls (trace (snd ?X)) = compiled @ [EvDeleteFile p1, EvDeleteFile p2] @ rest)
        \<and> (\<not> Pack (options s) \<longrightarrow>
              path = fused \<and> p1 \<notin> files (snd ?X) \<and> p2 \<notin> files (snd ?X)
            \<and> (fused \<in> f3 \<and> fused \<noteq> p1 \<and> fused \<noteq> p2 \<longrightarrow> fused \<in> files (snd ?X)))"
    if ret: "fst ?X = Returns (path, None)"
  proof -
    have e: "err = None" using failed ret by (cases err) auto
    have e1: "d1 = None" using first [OF e] ret by (cases d1) auto
    have e2: "d2 = None" using second [OF e e1] ret by (cases d2) auto
    from all_ok [OF e e1 e2] obtain r s7 where
      f: "?fuse = (r, s7)"
      and r: "case ProjectData (options s) of
              None \<Rightarrow> r = Panics
            | Some p \<Rightarrow> r = Returns None \<and> Pack (options s7) = Pack (options s)
                \<and> CompiledBinary (options s7) = fused"
      and rest: "files s7 = f3 - {p1} - {p2}"
        "calls (trace s7) = compiled @ [EvDeleteFile p1, EvDeleteFile p2]"
      by blast
    have some: "ProjectData (options s) \<noteq> None"
    proof
      assume "ProjectData (options s) = None"
      with r have "r = Panics" by simp
      with ex f ret show False by simp
    qed
    with r have ok: "r = Returns None" by (auto split: option.splits)
    have X: "?X = packageAndReturn env s7" using ex f ok by simp
    from packageAndReturn_frame [of env s7] obtain evs where
      "trace (snd (packageAndReturn env s7)) = trace s7 @ evs" by blast
    then have c: "calls (trace (snd ?X)) = compiled @ [EvDeleteFile p1, EvDeleteFile p2] @ calls evs"
      using X rest by simp
    have "path = fused \<and> p1 \<notin> files (snd ?X) \<and> p2 \<notin> files (snd ?X)
            \<and> (fused \<in> f3 \<and> fused \<noteq> p1 \<and> fused \<noteq> p2 \<longrightarrow> fused \<in> files (snd ?X))"
      if "\<not> Pack (options s)"
      using finished [OF e e1 e2 some that] ret by simp
    with e e1 e2 c show ?thesis by blast
  qed
  show ?thesis
    using failed first second finished success by blast
qed

theorem execBuildApplication_temporaries_witness:
  "fst (execBuildApplication env_ok demo_state_universal) = Returns (''/work/build/bin/app'', None)
   \<and> files (snd (execBuildApplication env_ok demo_state_universal)) = {''/work/build/bin/app''}
   \<and> fst (execBuildApplication env_delete_fails demo_state_universal)
       = Returns ([], Some (Error ''permission denied''))
   \<and> files (snd (execBuildApplication env_delete_fails demo_state_universal))
       = {''/work/build/bin/app'', ''/work/build/bin/app-arm64'', ''/work/build/bin/app-amd64''}"
proof -
  have ok: "fst (execBuildApplication env_ok demo_state_universal) = Returns (''/work/build/bin/app'', None)
   \<and> files (snd (execBuildApplication env_ok demo_state_universal)) = {''/work/build/bin/app''}"
    using execBuildApplication_temporaries [where env = env_ok and s = demo_state_universal
      and ?cb1.0 = "''/work/build/bin/app-amd64''"
      and ?f1.0 = "{''/work/build/bin/app-amd64''}"
      and ?cb2.0 = "''/work/build/bin/app-arm64''"
      and ?f2.0 = "{''/work/build/bin/app-arm64'', ''/work/build/bin/app-amd64''}"
      and stdout = "[]" and stderr = "[]" and err = None and path = "''/work/build/bin/app''"
      and ?f3.0 = "{''/work/build/bin/app'', ''/work/build/bin/app-arm64'', ''/work/build/bin/app-amd64''}"]
    by (simp add: env_ok_def demo_state_universal_def demo_state_def demo_options_def
          demo_project_def insert_Diff_if)
  have failed: "fst (execBuildApplication env_delete_fails demo_state_universal)
       = Returns ([], Some (Error ''permission denied''))
   \<and> files (snd (execBuildApplication env_delete_fails demo_state_universal))
       = {''/work/build/bin/app'', ''/work/build/bin/app-arm64'', ''/work/build/bin/app-amd64''}"
    using execBuildApplication_temporaries [where env = env_delete_fails and s = demo_state_universal
      and ?cb1.0 = "''/work/build/bin/app-amd64''"
      and ?f1.0 = "{''/work/build/bin/app-amd64''}"
      and ?cb2.0 = "''/work/build/bin/app-arm64''"
      and ?f2.0 = "{''/work/build/bin/app-arm64'', ''/work/build/bin/app-amd64''}"
      and stdout = "[]" and stderr = "[]" and err = None and path = "''/work/build/bin/app''"
      and ?f3.0 = "{''/work/build/bin/app'', ''/work/build/bin/app-arm64'', ''/work/build/bin/app-amd64''}"]
    by (simp add: env_delete_fails_def env_ok_def demo_state_universal_def demo_state_def
          demo_options_def demo_project_def insert_Diff_if)
  from ok failed show ?thesis by blast
qed

text \<open>
  The claim as stated, that the two binaries are deleted whether the fusion succeeded or
  failed, fails: with a fusion tool that fails, the stage returns the error and both
  intermediate binaries are still in the bin directory.
\<close>

theorem temporaries_remain_counterexample:
  "fst (execBuildApplication env_lipo_fails demo_state_universal)
     = Returns ([], Some (Error ''exit status 1 - lipo: failed''))
   \<and> files (snd (execBuildApplication env_lipo_fails demo_state_universal))
     = {''/work/build/bin/app-arm64'', ''/work/build/bin/app-amd64''}"
  using execBuildApplication_lipo_fails [where env = env_lipo_fails and s = demo_state_universal
      and ?cb1.0 = "''/work/build/bin/app-amd64''"
      and ?f1.0 = "{''/work/build/bin/app-amd64''}"
      and ?cb2.0 = "''/work/build/bin/app-arm64''"
      and ?f2.0 = "{''/work/build/bin/app-arm64'', ''/work/build/bin/app-amd64''}"
      and stdout = "[]" and stderr = "''lipo: failed''" and e = "Error ''exit status 1''"
      and ?f3.0 = "{''/work/build/bin/app-arm64'', ''/work/build/bin/app-amd64''}"]
  by (clarsimp simp add: env_lipo_fails_def env_ok_def demo_state_universal_def demo_state_def
        demo_options_def)

section \<open>The stages in sequence\<close>

lemma orReturn_preserves:
  assumes "g (snd r) = x" and "\<And>s'. g s' = x \<Longrightarrow> g (snd (rest s')) = x"
  shows "g (snd (orReturn r rest)) = x"
proof (cases r)
  case (Pair out s1)
  with assms show ?thesis
    by (cases out) (auto simp: orReturn_def split: option.splits)
qed

lemma orReturnErr_preserves:
  assumes "g (snd r) = x" and "\<And>s'. g s' = x \<Longrightarrow> g (snd (rest s')) = x"
  shows "g (snd (orReturnErr r rest)) = x"
proof (cases r)
  case (Pair out s1)
  with assms show ?thesis
    by (cases out) (auto simp: orReturnErr_def split: option.splits)
qed

lemma orReturn_not_Exits:
  assumes "fst r \<noteq> Exits" and "\<And>s'. fst (rest s') \<noteq> Exits"
  shows "fst (orReturn r rest) \<noteq> Exits"
proof (cases r)
  case (Pair out s1)
  with assms show ?thesis
    by (cases out) (auto simp: orReturn_def split: option.splits)
qed

lemma orReturnErr_not_Exits:
  assumes "fst r \<noteq> Exits" and "\<And>s'. fst (rest s') \<noteq> Exits"
  shows "fst (orReturnErr r rest) \<noteq> Exits"
proof (cases r)
  case (Pair out s1)
  with assms show ?thesis
    by (cases out) (auto simp: orReturnErr_def split: option.splits)
qed

lemma orReturn_success:
  assumes "fst (orReturn r rest) = Returns (path, None)"
  shows "\<exists>s1. r = (Returns None, s1) \<and> orReturn r rest = rest s1"
proof (cases r)
  case (Pair out s1)
  with assms show ?thesis
    by (cases out) (auto simp: orReturn_def split: option.splits)
qed

lemma orReturnErr_success:
  assumes "fst (orReturnErr r rest) = Returns None"
  shows "\<exists>s1. r = (Returns None, s1) \<and> orReturnErr r rest = rest s1"
proof (cases r)
  case (Pair out s1)
  with assms show ?thesis
    by (cases out) (auto simp: orReturnErr_def split: option.splits)
qed

lemma orReturn_Exits:
  assumes "fst (orReturn r rest) = Exits" and "fst r \<noteq> Exits"
  shows "\<exists>s1. r = (Returns None, s1) \<and> orReturn r rest = rest s1"
proof (cases r)
  case (Pair out s1)
  with assms show ?thesis
    by (cases out) (auto simp: orReturn_def split: option.splits)
qed

lemma CompileProject_options:
  "\<exists>cb. options (snd (CompileProject env s)) = (options s)\<lparr>CompiledBinary := cb\<rparr>"
  by (auto simp: CompileProject_def split_beta)

lemma CompileProject_fields [simp]:
  "Arch (options (snd (CompileProject env s))) = Arch (options s)"
  "OutputFile (options (snd (CompileProject env s))) = OutputFile (options s)"
  "CleanBinDirectory (options (snd (CompileProject env s))) = CleanBinDirectory (options s)"
  "UserTags (options (snd (CompileProject env s))) = UserTags (options s)"
  "Platform (options (snd (CompileProject env s))) = Platform (options s)"
  "Pack (options (snd (CompileProject env s))) = Pack (options s)"
  "BinDirectory (options (snd (CompileProject env s))) = BinDirectory (options s)"
  "ProjectData (options (snd (CompileProject env s))) = ProjectData (options s)"
  by (simp_all add: CompileProject_def split_beta)

lemma fuseBinaries_BinDirectory [simp]:
  "BinDirectory (options (snd (fuseBinaries env outputFile amd64Filename arm64Filename s)))
     = BinDirectory (options s)"
  using fuseBinaries_options [of env outputFile amd64Filename arm64Filename s] by auto

lemma CompileProject_not_Exits [simp]: "fst (CompileProject env s) \<noteq> Exits"
  by (simp add: CompileProject_def split_beta)

lemma compileUniversal_builderLife [simp]:
  "builderLife (trace (snd (compileUniversal env s))) = builderLife (trace s)"
  unfolding compileUniversal_def Let_def
  by (rule orReturnErr_preserves [where g = "\<lambda>s. builderLife (trace s)"], simp,
      rule orReturnErr_preserves [where g = "\<lambda>s. builderLife (trace s)"], simp, simp)

lemma compileUniversal_not_Exits [simp]: "fst (compileUniversal env s) \<noteq> Exits"
  unfolding compileUniversal_def Let_def
  by (intro orReturnErr_not_Exits) simp_all

lemma compileApplication_builderLife [simp]:
  "builderLife (trace (snd (compileApplication env s))) = builderLife (trace s)"
  unfolding compileApplication_def Let_def
  by (rule orReturn_preserves [where g = "\<lambda>s. builderLife (trace s)"]) simp_all

lemma compileApplication_not_Exits [simp]: "fst (compileApplication env s) \<noteq> Exits"
  unfolding compileApplication_def Let_def
  by (intro orReturn_not_Exits) simp_all

lemma removeSyso_trace [simp]:
  "builderLife (trace (snd (removeSyso env r))) = builderLife (trace (snd r))"
  "commands (trace (snd (removeSyso env r))) = commands (trace (snd r))"
proof -
  obtain out s where r: "r = (out, s)" by (cases r)
  show "builderLife (trace (snd (removeSyso env r))) = builderLife (trace (snd r))"
    using r by (cases out)
      (simp_all add: removeSyso_def os_Remove_def split: option.splits)
  show "commands (trace (snd (removeSyso env r))) = commands (trace (snd r))"
    using r by (cases out)
      (simp_all add: removeSyso_def os_Remove_def split: option.splits)
qed

lemma removeSyso_Exits:
  assumes "fst (removeSyso env r) = Exits" and "fst r \<noteq> Exits"
  shows "\<exists>evs err. trace (snd (removeSyso env r)) = evs @ [EvFatal err]"
proof -
  obtain out s where r: "r = (out, s)" by (cases r)
  with assms show ?thesis
    by (cases out) (auto simp: removeSyso_def os_Remove_def split: option.splits)
qed

lemma execBuildApplication_builderLife [simp]:
  "builderLife (trace (snd (execBuildApplication env s))) = builderLife (trace s)"
proof (cases "Pack (options s) \<and> Platform (options s) = ''windows''")
  case False
  then show ?thesis by (auto simp: execBuildApplication_def)
next
  case True
  have "builderLife (trace (snd (orReturn
          (call_packageApplicationForWindows env (emit (EvLog fmt_GeneratingBundleAssets []) s))
          (\<lambda>s1. removeSyso env (compileApplication env (emit (EvLog fmt_Done []) s1))))))
        = builderLife (trace s)"
    by (rule orReturn_preserves [where g = "\<lambda>s. builderLife (trace s)"]) simp_all
  with True show ?thesis by (simp add: execBuildApplication_def)
qed

text \<open>
  The compile stage ends the process only through the deferred removal of the syso file,
  which is set up only for a packaged Windows build.
\<close>

lemma execBuildApplication_Exits:
  assumes "fst (execBuildApplication env s) = Exits"
  shows "Pack (options s) \<and> Platform (options s) = ''windows''
       \<and> (\<exists>evs err. trace (snd (execBuildApplication env s)) = evs @ [EvFatal err])"
proof (cases "Pack (options s) \<and> Platform (options s) = ''windows''")
  case False
  with assms show ?thesis by (simp add: execBuildApplication_def)
next
  case True
  let ?r = "call_packageApplicationForWindows env (emit (EvLog fmt_GeneratingBundleAssets []) s)"
  let ?rest = "\<lambda>s1. removeSyso env (compileApplication env (emit (EvLog fmt_Done []) s1))"
  have ex: "execBuildApplication env s = orReturn ?r ?rest"
    using True by (simp add: execBuildApplication_def)
  have "fst ?r \<noteq> Exits" using packagers_return(2) [of env] by (metis outcome.distinct(3))
  with orReturn_Exits [of ?r ?rest] assms ex obtain s1 where
    "orReturn ?r ?rest = ?rest s1" by auto
  with removeSyso_Exits [of env "compileApplication env (emit (EvLog fmt_Done []) s1)"] assms ex True
  show ?thesis by simp
qed

lemma buildApplicationAndPostHooks_builderLife [simp]:
  "builderLife (trace (snd (buildApplicationAndPostHooks env hookArgs s))) = builderLife (trace s)"
proof -
  let ?c = "if \<not> IgnoreApplication (options s) then execBuildApplication env s
            else (Returns ([], None), s)"
  obtain out s1 where c: "?c = (out, s1)" by (cases ?c)
  have "s1 = snd ?c" using c by simp
  then have b1: "builderLife (trace s1) = builderLife (trace s)" by simp
  show ?thesis
  proof (cases out)
    case (Returns res)
    obtain bin err where res: "res = (bin, err)" by (cases res)
    show ?thesis
    proof (cases err)
      case (Some e)
      with c Returns res b1 show ?thesis by (simp add: buildApplicationAndPostHooks_def)
    next
      case None
      have "builderLife (trace (snd (orReturn
              (forEachHook (\<lambda>hook. execPostBuildHook env hook (hookArgs(''${bin}'' \<mapsto> bin)))
                 (hookIdentifiers (options s1)) s1)
              (\<lambda>s2. (Returns (bin, None), s2))))) = builderLife (trace s)"
        by (rule orReturn_preserves [where g = "\<lambda>s. builderLife (trace s)"])
          (simp_all add: b1 forEachHook_preserves [where f = "\<lambda>s. builderLife (trace s)"])
      with c Returns res None show ?thesis by (simp add: buildApplicationAndPostHooks_def)
    qed
  next
    case Panics
    with c b1 show ?thesis by (simp add: buildApplicationAndPostHooks_def)
  next
    case Exits
    with c b1 show ?thesis by (simp add: buildApplicationAndPostHooks_def)
  qed
qed

lemma buildApplicationAndPostHooks_Exits:
  assumes "fst (buildApplicationAndPostHooks env hookArgs s) = Exits"
  shows "\<not> IgnoreApplication (options s) \<and> Pack (options s) \<and> Platform (options s) = ''windows''
       \<and> (\<exists>evs err. trace (snd (buildApplicationAndPostHooks env hookArgs s)) = evs @ [EvFatal err])"
proof -
  let ?c = "if \<not> IgnoreApplication (options s) then execBuildApplication env s
            else (Returns ([], None), s)"
  obtain out s1 where c: "?c = (out, s1)" by (cases ?c)
  show ?thesis
  proof (cases out)
    case (Returns res)
    obtain bin err where res: "res = (bin, err)" by (cases res)
    show ?thesis
    proof (cases err)
      case (Some e)
      with c Returns res assms show ?thesis by (simp add: buildApplicationAndPostHooks_def)
    next
      case None
      have "fst (orReturn
              (forEachHook (\<lambda>hook. execPostBuildHook env hook (hookArgs(''${bin}'' \<mapsto> bin)))
                 (hookIdentifiers (options s1)) s1)
              (\<lambda>s2. (Returns (bin, None), s2))) \<noteq> Exits"
        by (intro orReturn_not_Exits forEachHook_not_Exits) simp_all
      with c Returns res None assms show ?thesis by (simp add: buildApplicationAndPostHooks_def)
    qed
  next
    case Panics
    with c assms show ?thesis by (simp add: buildApplicationAndPostHooks_def)
  next
    case Exits
    with c have ex: "\<not> IgnoreApplication (options s)" "execBuildApplication env s = (Exits, s1)"
      by (auto split: if_splits)
    with execBuildApplication_Exits [of env s] c Exits show ?thesis
      by (simp add: buildApplicationAndPostHooks_def)
  qed
qed

lemma orReturn_continues:
  assumes "fst (orReturn r rest) = Exits \<or> (\<exists>path. fst (orReturn r rest) = Returns (path, None))"
    and "fst r \<noteq> Exits"
  shows "\<exists>s1. r = (Returns None, s1) \<and> orReturn r rest = rest s1"
  using assms orReturn_Exits [of r rest] orReturn_success [of r rest] by blast

lemma buildPipeline_builderLife [simp]:
  "builderLife (trace (snd (buildPipeline env cwd s))) = builderLife (trace s)"
  unfolding buildPipeline_def Let_def
  by (intro orReturn_preserves [where g = "\<lambda>s. builderLife (trace s)"])
    (simp_all add: forEachHook_preserves [where f = "\<lambda>s. builderLife (trace s)"])

text \<open>
  When the pipeline gets past its first four stages (it returns no error, or the process
  exits): the pre-build hooks have all returned nil, and the compile stage starts from
  options that differ from those at the start only by the tag of the bindings stage.
\<close>

lemma buildPipeline_reaches:
  assumes "fst (buildPipeline env cwd s) = Exits
         \<or> (\<exists>path. fst (buildPipeline env cwd s) = Returns (path, None))"
  shows "\<exists>s2 s5.
           forEachHook (\<lambda>hook. execPreBuildHook env hook (platformArgs (options s)))
             (hookIdentifiers (options s)) (emit EvSetProjectData s) = (Returns None, s2)
         \<and> options s5 = bindingsOptions (options s)
         \<and> commands (trace s5) = commands (trace s2)
         \<and> buildPipeline env cwd s
             = buildApplicationAndPostHooks env (platformArgs (options s)) s5"
proof -
  let ?ha = "platformArgs (options s)"
  let ?pre = "forEachHook (\<lambda>hook. execPreBuildHook env hook ?ha)
                (hookIdentifiers (options s)) (emit EvSetProjectData s)"
  let ?B = "\<lambda>s3. if \<not> SkipBindings (options s3) then GenerateBindings env s3 else (Returns None, s3)"
  let ?F = "\<lambda>s4. if \<not> IgnoreFrontend (options s4) then BuildFrontend env s4 else (Returns None, s4)"
  let ?rest3 = "\<lambda>s4. orReturn (?F s4) (buildApplicationAndPostHooks env ?ha)"
  let ?rest2 = "\<lambda>s3. orReturn (?B s3) ?rest3"
  let ?rest1 = "\<lambda>s2. orReturn (CreateEmbedDirectories env cwd s2) ?rest2"
  have eq: "buildPipeline env cwd s = orReturn ?pre ?rest1"
    by (simp add: buildPipeline_def Let_def platformArgs_def)
  have "fst ?pre \<noteq> Exits" by (intro forEachHook_not_Exits) simp
  with orReturn_continues [of ?pre ?rest1] assms eq obtain s2 where
    pre: "?pre = (Returns None, s2)" and eq1: "buildPipeline env cwd s = ?rest1 s2"
    by auto
  have o2: "options s2 = options s"
    using forEachHook_options [of "\<lambda>hook. execPreBuildHook env hook ?ha"
        "hookIdentifiers (options s)" "emit EvSetProjectData s"] pre by simp
  have "fst (CreateEmbedDirectories env cwd s2) \<noteq> Exits"
    using CreateEmbedDirectories_returns [of env cwd s2] by auto
  with orReturn_continues [of "CreateEmbedDirectories env cwd s2" ?rest2] assms eq1 obtain s3 where
    embed: "CreateEmbedDirectories env cwd s2 = (Returns None, s3)"
    and eq2: "buildPipeline env cwd s = ?rest2 s3"
    by auto
  have "s3 = snd (CreateEmbedDirectories env cwd s2)" using embed by simp
  then have o3: "options s3 = options s" "commands (trace s3) = commands (trace s2)"
    using o2 by simp_all
  have "fst (?B s3) \<noteq> Exits"
    using GenerateBindings_returns [of env s3] by auto
  with orReturn_continues [of "?B s3" ?rest3] assms eq2 obtain s4 where
    bind: "?B s3 = (Returns None, s4)" and eq3: "buildPipeline env cwd s = ?rest3 s4"
    by auto
  have "s4 = snd (?B s3)" using bind by simp
  then have o4: "options s4 = bindingsOptions (options s)" "commands (trace s4) = commands (trace s2)"
    using o3 by (simp_all add: GenerateBindings_options bindingsOptions_def)
  have "fst (?F s4) \<noteq> Exits"
    using BuildFrontend_returns [of env s4] by auto
  with orReturn_continues [of "?F s4" "buildApplicationAndPostHooks env ?ha"] assms eq3 obtain s5 where
    front: "?F s4 = (Returns None, s5)"
    and eq4: "buildPipeline env cwd s = buildApplicationAndPostHooks env ?ha s5"
    by auto
  have "s5 = snd (?F s4)" using front by simp
  then have o5: "options s5 = bindingsOptions (options s)" "commands (trace s5) = commands (trace s2)"
    using o4 by simp_all
  from pre o5 eq4 show ?thesis by blast
qed

lemma bindingsOptions_fields [simp]:
  "Pack (bindingsOptions opts) = Pack opts"
  "Platform (bindingsOptions opts) = Platform opts"
  "Arch (bindingsOptions opts) = Arch opts"
  "IgnoreApplication (bindingsOptions opts) = IgnoreApplication opts"
  "ProjectData (bindingsOptions opts) = ProjectData opts"
  "BinDirectory (bindingsOptions opts) = BinDirectory opts"
  by (simp_all add: bindingsOptions_def)

lemma preludeOptions_fields [simp]:
  "Pack (preludeOptions env p opts) = Pack opts"
  "Platform (preludeOptions env p opts) = Platform opts"
  "Arch (preludeOptions env p opts) = Arch opts"
  "IgnoreApplication (preludeOptions env p opts) = IgnoreApplication opts"
  "UserTags (preludeOptions env p opts) = UserTags opts"
  "SkipBindings (preludeOptions env p opts) = SkipBindings opts"
  "Obfuscated (preludeOptions env p opts) = Obfuscated opts"
  "ProjectData (preludeOptions env p opts) = Some (p\<lparr>OutputType_Project := OutputType opts\<rparr>)"
  "BinDirectory (preludeOptions env p opts) = filepath_Join env (GetBuildDir env p) ''bin''"
  by (simp_all add: preludeOptions_def)

lemma buildPipeline_Exits:
  assumes "fst (buildPipeline env cwd s) = Exits"
  shows "\<not> IgnoreApplication (options s) \<and> Pack (options s) \<and> Platform (options s) = ''windows''
       \<and> (\<exists>evs err. trace (snd (buildPipeline env cwd s)) = evs @ [EvFatal err])"
proof -
  from buildPipeline_reaches [of env cwd s] assms obtain s5 where
    "options s5 = bindingsOptions (options s)"
    "buildPipeline env cwd s = buildApplicationAndPostHooks env (platformArgs (options s)) s5"
    by auto
  with buildApplicationAndPostHooks_Exits [of env "platformArgs (options s)" s5] assms
  show ?thesis by simp
qed

text \<open>\<^verbatim>\<open>Build\<close> for a recognised output type: the pipeline under the deferred \<^verbatim>\<open>CleanUp\<close>.\<close>

lemma Build_eq:
  assumes "os_Getwd env = (cwd, None)" and "ProjectData (options s) = Some p"
    and "OutputType (options s) = ''desktop'' \<or> OutputType (options s) = ''dev''"
  shows "Build env s =
           deferCleanUp env (buildPipeline env cwd
             (emit EvNewDesktopBuilder (s\<lparr>options := preludeOptions env p (options s)\<rparr>)))"
  using assms by (auto simp: Build_def Let_def preludeOptions_def)

section \<open>Claim about the release of the builder\<close>

text \<open>
  Claim C5, as the code has it. Once the working directory has been read, the project
  data are set and the output type is recognised, \<^verbatim>\<open>Build\<close> constructs one builder, and
  whenever \<^verbatim>\<open>Build\<close> returns (with a path or with the error of any stage) or panics, the
  \<^verbatim>\<open>CleanUp\<close> of the builder has run exactly once, as the last call of \<^verbatim>\<open>Build\<close>. The one
  way out on which \<^verbatim>\<open>CleanUp\<close> does not run is the exit of the process through \<^verbatim>\<open>log.Fatal\<close>
  in the deferred removal of the syso file, which a packaged build for Windows with the
  application not ignored sets up: then the last event is that fatal error and the
  builder has been constructed and never released.
\<close>

theorem Build_CleanUp:
  assumes "os_Getwd env = (cwd, None)" and "ProjectData (options s) = Some p"
    and "OutputType (options s) = ''desktop'' \<or> OutputType (options s) = ''dev''"
  shows "(fst (Build env s) \<noteq> Exits \<longrightarrow>
            builderLife (trace (snd (Build env s)))
              = builderLife (trace s) @ [EvNewDesktopBuilder, EvCleanUp]
          \<and> (\<exists>evs. trace (snd (Build env s)) = evs @ [EvCleanUp]))
       \<and> (fst (Build env s) = Exits \<longrightarrow>
            builderLife (trace (snd (Build env s))) = builderLife (trace s) @ [EvNewDesktopBuilder]
          \<and> (\<exists>evs err. trace (snd (Build env s)) = evs @ [EvFatal err])
          \<and> Pack (options s) \<and> Platform (options s) = ''windows''
          \<and> \<not> IgnoreApplication (options s))"
proof -
  let ?s1 = "emit EvNewDesktopBuilder (s\<lparr>options := preludeOptions env p (options s)\<rparr>)"
  obtain out s' where r: "buildPipeline env cwd ?s1 = (out, s')"
    by (cases "buildPipeline env cwd ?s1")
  have "s' = snd (buildPipeline env cwd ?s1)" using r by simp
  then have life: "builderLife (trace s') = builderLife (trace s) @ [EvNewDesktopBuilder]"
    by simp
  have build: "Build env s = deferCleanUp env (out, s')"
    using Build_eq [OF assms] r by simp
  show ?thesis
  proof (cases "out = Exits")
    case True
    with buildPipeline_Exits [of env cwd ?s1] r build life show ?thesis
      by (simp add: deferCleanUp_def)
  next
    case False
    with build life show ?thesis
      by (cases out) (simp_all add: deferCleanUp_def)
  qed
qed

theorem Build_CleanUp_witness:
  "builderLife (trace (snd (Build env_ok demo_state_two_hooks))) = [EvNewDesktopBuilder, EvCleanUp]
   \<and> (\<exists>evs. trace (snd (Build env_ok demo_state_two_hooks)) = evs @ [EvCleanUp])"
  using Build_CleanUp [where env = env_ok and s = demo_state_two_hooks and cwd = "''/work''"]
  by (auto simp: env_ok_def demo_state_two_hooks_def demo_state_def demo_options_def)

text \<open>
  The claim as stated, that \<^verbatim>\<open>CleanUp\<close> runs on every exit path once a builder is selected,
  fails: in a packaged build for Windows on a host where the syso file cannot be removed
  the process exits, the builder has been constructed, and \<^verbatim>\<open>CleanUp\<close> is not called.
\<close>

theorem CleanUp_skipped_counterexample:
  "fst (Build env_remove_fails demo_state_windows_pack) = Exits
   \<and> builderLife (trace (snd (Build env_remove_fails demo_state_windows_pack)))
       = [EvNewDesktopBuilder]
   \<and> EvCleanUp \<notin> set (trace (snd (Build env_remove_fails demo_state_windows_pack)))"
  by (simp add: run_defs Let_def)

end
